theory Spec2Isabelle
  imports Main "HOL-Library.Product_Lexorder" "HOL-Library.Sublist"
begin

section \<open>Python values shared by the model\<close>

text \<open>
  Exceptions of the Python source are values. Each constructor is the exception class,
  its argument the message. A function that can raise returns \<open>exn + 'a\<close>, with
  \<open>Inl\<close> the raised exception. All the classes are subclasses of \<open>Exception\<close>, which
  is what \<open>except Exception\<close> catches; \<open>KeyboardInterrupt\<close> and \<open>SystemExit\<close>, which
  it lets through, are not modelled.
\<close>

datatype exn =
    TypeError string
  | ValueError string
  | NotImplementedError string
  | OSError string
  | FileNotFoundError string
  | NameError string
  | OverflowError string
  | OutOfBoundsDatetime string
  | OtherError string

text \<open>\<open>str(e)\<close> of an exception built from one message is the message.\<close>

fun str_exn :: "exn \<Rightarrow> string" where
  "str_exn (TypeError m) = m"
| "str_exn (ValueError m) = m"
| "str_exn (NotImplementedError m) = m"
| "str_exn (OSError m) = m"
| "str_exn (FileNotFoundError m) = m"
| "str_exn (NameError m) = m"
| "str_exn (OverflowError m) = m"
| "str_exn (OutOfBoundsDatetime m) = m"
| "str_exn (OtherError m) = m"

text \<open>Decimal text of an integer, as \<open>f"{n}"\<close> and \<open>str(n)\<close> print it.\<close>

definition digit_char :: "nat \<Rightarrow> char" where
  "digit_char d = ''0123456789'' ! d"

fun str_nat :: "nat \<Rightarrow> string" where
  "str_nat n = (if n < 10 then [digit_char n] else str_nat (n div 10) @ [digit_char (n mod 10)])"

declare str_nat.simps [simp del]

definition str_int :: "int \<Rightarrow> string" where
  "str_int i = (if i < 0 then CHR ''-'' # str_nat (nat (- i)) else str_nat (nat i))"

text \<open>A name between single quotes, as the messages of Python show it.\<close>

definition quoted :: "string \<Rightarrow> string" where
  "quoted s = [CHR 0x27] @ s @ [CHR 0x27]"

text \<open>\<open>os.path.basename\<close>: what follows the last separator.\<close>

definition basename :: "string \<Rightarrow> string" where
  "basename p = rev (takeWhile (\<lambda>c. c \<noteq> CHR ''/'') (rev p))"

text \<open>\<open>s.startswith(p)\<close>.\<close>

definition startswith :: "string \<Rightarrow> string \<Rightarrow> bool" where
  "startswith s p = (take (length p) s = p)"

section \<open>Timestamps and the pandas operations used by the grouping code\<close>

text \<open>
  A \<open>pd.Timestamp\<close> is modelled by its calendar fields: year, month, day and the
  nanosecond of the day. The order of timestamps is the order of instants, which on
  calendar fields is the lexicographic order of the tuple. A \<open>pd.Timestamp\<close> counts
  the nanoseconds from 1970-01-01 in 64 bits, so it lies between \<open>pd.Timestamp.min\<close>
  and \<open>pd.Timestamp.max\<close>; an operation whose result would lie outside raises
  \<open>OutOfBoundsDatetime\<close>.
\<close>

type_synonym timestamp = "int \<times> int \<times> int \<times> int"

definition year :: "timestamp \<Rightarrow> int" where
  "year t = fst t"

definition month :: "timestamp \<Rightarrow> int" where
  "month t = fst (snd t)"

definition day :: "timestamp \<Rightarrow> int" where
  "day t = fst (snd (snd t))"

definition tod :: "timestamp \<Rightarrow> int" where
  "tod t = snd (snd (snd t))"

definition is_leap :: "int \<Rightarrow> bool" where
  "is_leap y = (y mod 4 = 0 \<and> (y mod 100 \<noteq> 0 \<or> y mod 400 = 0))"

definition days_in_month :: "int \<Rightarrow> int \<Rightarrow> int" where
  "days_in_month y m =
     (if m = 2 then (if is_leap y then 29 else 28)
      else if m = 4 \<or> m = 6 \<or> m = 9 \<or> m = 11 then 30 else 31)"

definition ns_per_day :: int where
  "ns_per_day = 86400000000000"

text \<open>
  \<open>pd.Timestamp.min\<close> is 1677-09-21 00:12:43.145224193 and \<open>pd.Timestamp.max\<close> is
  2262-04-11 23:47:16.854775807: the counts \<open>- (2 ^ 63 - 1)\<close> and \<open>2 ^ 63 - 1\<close>.
\<close>

definition Timestamp_min :: timestamp where
  "Timestamp_min = (1677, 9, 21, 763145224193)"

definition Timestamp_max :: timestamp where
  "Timestamp_max = (2262, 4, 11, 85636854775807)"

definition in_bounds :: "timestamp \<Rightarrow> bool" where
  "in_bounds t = (Timestamp_min \<le> t \<and> t \<le> Timestamp_max)"

text \<open>The timestamps that exist: a real calendar date, a time within the day, and
  an instant within the bounds.\<close>

definition valid_timestamp :: "timestamp \<Rightarrow> bool" where
  "valid_timestamp t =
     (1 \<le> month t \<and> month t \<le> 12 \<and> 1 \<le> day t \<and> day t \<le> days_in_month (year t) (month t)
      \<and> 0 \<le> tod t \<and> tod t < ns_per_day \<and> in_bounds t)"

text \<open>
  The calendar arithmetic behind the pandas operations, on the fields alone:
  midnight of a date, midnight of the date of a timestamp, a timestamp moved on by
  \<open>k \<ge> 0\<close> months (the year carries and the day is cut down to the length of the
  month reached), and a timestamp moved on by one day.
\<close>

definition midnight :: "int \<Rightarrow> int \<Rightarrow> int \<Rightarrow> timestamp" where
  "midnight y m d = (y, m, d, 0)"

definition floor_day :: "timestamp \<Rightarrow> timestamp" where
  "floor_day t = (year t, month t, day t, 0)"

definition add_months :: "int \<Rightarrow> timestamp \<Rightarrow> timestamp" where
  "add_months k t =
     (let idx = year t * 12 + (month t - 1) + k;
          y = idx div 12;
          m = idx mod 12 + 1
      in (y, m, min (day t) (days_in_month y m), tod t))"

definition add_day :: "timestamp \<Rightarrow> timestamp" where
  "add_day t =
     (if day t < days_in_month (year t) (month t) then (year t, month t, day t + 1, tod t)
      else if month t < 12 then (year t, month t + 1, 1, tod t)
      else (year t + 1, 1, 1, tod t))"

text \<open>A result of pandas is checked against the bounds. The message of pandas names
  the value; here it is the same for all.\<close>

definition bounded :: "timestamp \<Rightarrow> exn + timestamp" where
  "bounded t =
     (if in_bounds t then Inr t
      else Inl (OutOfBoundsDatetime ''Out of bounds nanosecond timestamp''))"

text \<open>
  \<open>pd.Timestamp(f"{y}-{m}-{d} 00:00:00")\<close>: the text is built from the three fields
  and parsed back, giving midnight of that date.
\<close>

definition Timestamp :: "int \<Rightarrow> int \<Rightarrow> int \<Rightarrow> exn + timestamp" where
  "Timestamp y m d = bounded (midnight y m d)"

text \<open>\<open>Timestamp.normalize()\<close>: midnight of the same date.\<close>

definition normalize :: "timestamp \<Rightarrow> exn + timestamp" where
  "normalize t = bounded (floor_day t)"

text \<open>
  \<open>t + pd.DateOffset(months=k)\<close> for \<open>k \<ge> 0\<close>; \<open>pd.DateOffset(years=k)\<close> is
  \<open>12 * k\<close> months.
\<close>

definition DateOffset_months :: "int \<Rightarrow> timestamp \<Rightarrow> exn + timestamp" where
  "DateOffset_months k t = bounded (add_months k t)"

definition DateOffset_years :: "int \<Rightarrow> timestamp \<Rightarrow> exn + timestamp" where
  "DateOffset_years k t = bounded (add_months (12 * k) t)"

text \<open>\<open>t + pd.DateOffset(days=1)\<close>: the next calendar day, same time of day.\<close>

definition DateOffset_day :: "timestamp \<Rightarrow> exn + timestamp" where
  "DateOffset_day t = bounded (add_day t)"

text \<open>
  The frequencies of \<open>pd.date_range\<close> that the code uses: \<open>"YS"\<close> (year start),
  \<open>"MS"\<close> (month start), \<open>"QS"\<close> (quarter start: January, April, July, October) and
  \<open>"D"\<close> (day). \<open>freq_step\<close> is the offset applied to a timestamp that lies on the
  frequency's anchor.
\<close>

datatype freq = YS | MS | QS | D

fun freq_step :: "freq \<Rightarrow> timestamp \<Rightarrow> timestamp" where
  "freq_step YS t = (year t + 1, 1, 1, tod t)"
| "freq_step MS t = (if month t < 12 then (year t, month t + 1, 1, tod t) else (year t + 1, 1, 1, tod t))"
| "freq_step QS t = (if month t + 3 \<le> 12 then (year t, month t + 3, 1, tod t)
                     else (year t + 1, month t + 3 - 12, 1, tod t))"
| "freq_step D t = add_day t"

text \<open>
  \<open>pd.date_range(start, end, freq)\<close> for a \<open>start\<close> and an \<open>end\<close> on the anchor of
  \<open>freq\<close> and within the bounds (the only way the code calls it): \<open>start\<close>, then
  the offset applied again and again, for as long as the timestamp reached is not
  after \<open>end\<close>. Every timestamp of the list lies between \<open>start\<close> and \<open>end\<close>, so
  none is out of bounds.
\<close>

function date_range :: "timestamp \<Rightarrow> timestamp \<Rightarrow> freq \<Rightarrow> timestamp list" where
  "date_range cur end f = (if cur \<le> end then cur # date_range (freq_step f cur) end f else [])"
  by pat_completeness auto
termination
proof (relation "measures [\<lambda>(cur, e, f). nat (year e + 1 - year cur),
                           \<lambda>(cur, e, f). nat (12 - month cur),
                           \<lambda>(cur, e, f). nat (31 - day cur)]")
  show "wf (measures [\<lambda>(cur, e, f). nat (year e + 1 - year cur),
                      \<lambda>(cur, e, f). nat (12 - month cur),
                      \<lambda>(cur, e, f). nat (31 - day cur)])"
    by simp
next
  fix cur e :: timestamp and f :: freq
  assume le: "cur \<le> e"
  obtain y m d t where cur: "cur = (y, m, d, t)" by (cases cur) auto
  obtain y' m' d' t' where e: "e = (y', m', d', t')" by (cases e) auto
  from le have yy: "y \<le> y'" by (auto simp: cur e)
  have dim: "days_in_month y m \<le> 31" by (simp add: days_in_month_def)
  show "((freq_step f cur, e, f), (cur, e, f))
        \<in> measures [\<lambda>(cur, e, f). nat (year e + 1 - year cur),
                     \<lambda>(cur, e, f). nat (12 - month cur),
                     \<lambda>(cur, e, f). nat (31 - day cur)]"
    using yy dim
    by (cases f) (auto simp: cur e year_def month_def day_def tod_def add_day_def)
qed

declare date_range.simps [simp del]

section \<open>Temporal grouping (routines.py)\<close>

text \<open>\<open>check_temporal_partitioning\<close>. The argument is a string here, so the
  \<open>isinstance\<close> test of the source passes.\<close>

definition valid_values :: "string list" where
  "valid_values = [''year'', ''month'', ''season'', ''quarter'']"

definition check_temporal_partitioning :: "string \<Rightarrow> exn + string" where
  "check_temporal_partitioning temporal_partitioning =
     (if temporal_partitioning \<notin> set valid_values
      then Inl (ValueError (''Invalid '' @ [CHR 0x27] @ temporal_partitioning @ [CHR 0x27]
                            @ ''. Valid values are [''
                            @ [CHR 0x27] @ ''year'' @ [CHR 0x27] @ '', ''
                            @ [CHR 0x27] @ ''month'' @ [CHR 0x27] @ '', ''
                            @ [CHR 0x27] @ ''season'' @ [CHR 0x27] @ '', ''
                            @ [CHR 0x27] @ ''quarter'' @ [CHR 0x27] @ '']''))
      else Inr temporal_partitioning)"

text \<open>The message of the \<open>NotImplementedError\<close> that both grouping functions raise
  for a granularity they do not implement.\<close>

definition invalid_partitioning_msg :: "string \<Rightarrow> string" where
  "invalid_partitioning_msg temporal_partitioning =
     ''Invalid '' @ [CHR 0x27] @ temporal_partitioning @ [CHR 0x27] @ '' temporal_partitioning''"

text \<open>\<open>get_time_prefix\<close>: the branches in the order of the source.\<close>

definition get_time_prefix :: "timestamp \<Rightarrow> string \<Rightarrow> exn + string" where
  "get_time_prefix timestep temporal_partitioning =
     (if temporal_partitioning = ''year'' then Inr (str_int (year timestep))
      else if temporal_partitioning = ''month''
        then Inr (str_int (year timestep) @ ''_'' @ str_int (month timestep))
      else if temporal_partitioning = ''quarter''
        then (let quarter = (month timestep - 1) div 3 + 1
              in Inr (str_int (year timestep) @ ''_'' @ str_int quarter))
      else if temporal_partitioning = ''day''
        then Inr (str_int (year timestep) @ ''_'' @ str_int (month timestep) @ ''_''
                  @ str_int (day timestep))
      else Inl (NotImplementedError (invalid_partitioning_msg temporal_partitioning)))"

text \<open>
  \<open>get_partitioning_boundaries\<close>. The source rebinds its local \<open>end_time\<close>; the
  bindings are the \<open>case\<close>s below, in the order in which the source evaluates them,
  each one passing on the exception of the operation it binds. Python's \<open>//\<close> on
  integers is \<open>div\<close>. In the day branch the second \<open>end_time.normalize()\<close> gives
  the value of the first.
\<close>

definition get_partitioning_boundaries :: "timestamp \<Rightarrow> timestamp \<Rightarrow> string \<Rightarrow> exn + timestamp list" where
  "get_partitioning_boundaries start_time end_time temporal_partitioning =
     (if temporal_partitioning = ''year'' then
        (case Timestamp (year end_time) 1 1 of
           Inl x \<Rightarrow> Inl x
         | Inr year_start \<Rightarrow>
        (case (if end_time \<noteq> year_start then DateOffset_years 1 end_time else Inr end_time) of
           Inl x \<Rightarrow> Inl x
         | Inr end_time \<Rightarrow>
        (case Timestamp (year start_time) 1 1 of
           Inl x \<Rightarrow> Inl x
         | Inr range_start \<Rightarrow>
        (case Timestamp (year end_time) 1 1 of
           Inl x \<Rightarrow> Inl x
         | Inr range_end \<Rightarrow> Inr (date_range range_start range_end YS)))))
      else if temporal_partitioning = ''month'' then
        (case Timestamp (year end_time) (month end_time) 1 of
           Inl x \<Rightarrow> Inl x
         | Inr month_start \<Rightarrow>
        (case (if end_time \<noteq> month_start then DateOffset_months 1 end_time else Inr end_time) of
           Inl x \<Rightarrow> Inl x
         | Inr end_time \<Rightarrow>
        (case Timestamp (year start_time) (month start_time) 1 of
           Inl x \<Rightarrow> Inl x
         | Inr range_start \<Rightarrow>
        (case Timestamp (year end_time) (month end_time) 1 of
           Inl x \<Rightarrow> Inl x
         | Inr range_end \<Rightarrow> Inr (date_range range_start range_end MS)))))
      else if temporal_partitioning = ''quarter'' then
        (let start_quarter_idx = (month start_time - 1) div 3 + 1;
             start_quarter_start_month = 3 * (start_quarter_idx - 1) + 1;
             end_quarter_idx = (month end_time - 1) div 3 + 1;
             end_quarter_start_month = 3 * (end_quarter_idx - 1) + 1
         in
        (case Timestamp (year end_time) end_quarter_start_month 1 of
           Inl x \<Rightarrow> Inl x
         | Inr quarter_start \<Rightarrow>
        (case (if end_time \<noteq> quarter_start
               then (case DateOffset_months 3 end_time of
                       Inl x \<Rightarrow> Inl x
                     | Inr end_time \<Rightarrow>
                         (let end_quarter_idx = (month end_time - 1) div 3 + 1
                          in Inr (end_time, 3 * (end_quarter_idx - 1) + 1)))
               else Inr (end_time, end_quarter_start_month)) of
           Inl x \<Rightarrow> Inl x
         | Inr (end_time, end_quarter_start_month) \<Rightarrow>
        (case Timestamp (year start_time) start_quarter_start_month 1 of
           Inl x \<Rightarrow> Inl x
         | Inr range_start \<Rightarrow>
        (case Timestamp (year end_time) end_quarter_start_month 1 of
           Inl x \<Rightarrow> Inl x
         | Inr range_end \<Rightarrow> Inr (date_range range_start range_end QS))))))
      else if temporal_partitioning = ''day'' then
        (case normalize end_time of
           Inl x \<Rightarrow> Inl x
         | Inr day_start \<Rightarrow>
        (case (if end_time \<noteq> day_start then DateOffset_day day_start else Inr end_time) of
           Inl x \<Rightarrow> Inl x
         | Inr end_time \<Rightarrow>
        (case Timestamp (year start_time) (month start_time) (day start_time) of
           Inl x \<Rightarrow> Inl x
         | Inr range_start \<Rightarrow> Inr (date_range range_start end_time D))))
      else Inl (NotImplementedError (invalid_partitioning_msg temporal_partitioning)))"

text \<open>
  The loop of \<open>get_list_group_periods\<close> over \<open>enumerate(boundaries)\<close>. At each
  boundary the group ends at the next boundary, or at \<open>end_time\<close> for the last one;
  both ends are clamped, the prefix is computed from the clamped start, and the
  interval is kept when it is not empty.
\<close>

type_synonym group_period = "string \<times> timestamp \<times> timestamp"

fun group_periods_loop :: "timestamp \<Rightarrow> timestamp \<Rightarrow> string \<Rightarrow> timestamp list \<Rightarrow> exn + group_period list" where
  "group_periods_loop start_time end_time tp [] = Inr []"
| "group_periods_loop start_time end_time tp (group_start # boundaries) =
     (let group_end = (case boundaries of [] \<Rightarrow> end_time | next_boundary # _ \<Rightarrow> next_boundary);
          group_start = max group_start start_time;
          group_end = min group_end end_time
      in case get_time_prefix group_start tp of
           Inl e \<Rightarrow> Inl e
         | Inr time_prefix \<Rightarrow>
             (case group_periods_loop start_time end_time tp boundaries of
                Inl e \<Rightarrow> Inl e
              | Inr intervals \<Rightarrow>
                  Inr (if group_start < group_end
                       then (time_prefix, group_start, group_end) # intervals
                       else intervals)))"

definition get_list_group_periods :: "timestamp \<Rightarrow> timestamp \<Rightarrow> string \<Rightarrow> exn + group_period list" where
  "get_list_group_periods start_time end_time temporal_partitioning =
     (case get_partitioning_boundaries start_time end_time temporal_partitioning of
        Inl e \<Rightarrow> Inl e
      | Inr boundaries \<Rightarrow> group_periods_loop start_time end_time temporal_partitioning boundaries)"

section \<open>File name information (info.py)\<close>

text \<open>
  The values that an information dictionary holds: \<open>datetime.datetime\<close>,
  \<open>datetime.time\<close> (time of day), \<open>datetime.date\<close> and strings. The dictionary is a
  map from keys to values.
\<close>

datatype pyval = Datetime timestamp | Time int | Date int int int | Str string

type_synonym info_dict = "string \<rightharpoonup> pyval"

text \<open>
  \<open>Parser(filename_pattern).parse(filename)\<close> of the external package trollsift is a
  parameter of the model: it takes the pattern and the file name and returns a
  dictionary or raises.
\<close>

type_synonym parser = "string \<Rightarrow> string \<Rightarrow> exn + info_dict"

text \<open>\<open>datetime.datetime.combine(date, time)\<close>; a \<open>datetime\<close> is also a \<open>date\<close>
  (it is a subclass) and gives its date part.\<close>

fun combine :: "pyval \<Rightarrow> int \<Rightarrow> timestamp option" where
  "combine (Date y m d) t = Some (y, m, d, t)"
| "combine (Datetime ts) t = Some (year ts, month ts, day ts, t)"
| "combine _ t = None"

definition ns_per_second :: int where
  "ns_per_second = 1000000000"

text \<open>\<open>start_datetime.replace(hour=h, minute=m, second=s)\<close> with the three fields of
  \<open>end_time\<close>: the whole seconds come from \<open>end_time\<close>, the fraction of a second stays.\<close>

definition replace_hms :: "timestamp \<Rightarrow> int \<Rightarrow> timestamp" where
  "replace_hms start_datetime end_time =
     (year start_datetime, month start_datetime, day start_datetime,
      (end_time div ns_per_second) * ns_per_second + tod start_datetime mod ns_per_second)"

text \<open>\<open>d + datetime.timedelta(days=1)\<close>: the next calendar day. A
  \<open>datetime.datetime\<close> has a year up to 9999; past it the addition raises
  \<open>OverflowError\<close>.\<close>

definition datetime_add_day :: "timestamp \<Rightarrow> exn + timestamp" where
  "datetime_add_day d =
     (if year (add_day d) \<le> 9999 then Inr (add_day d)
      else Inl (OverflowError ''date value out of range''))"

text \<open>The body of \<open>parse_filename_pattern(filename, filename_pattern)\<close>.\<close>

definition parse_filename_pattern :: "parser \<Rightarrow> string \<Rightarrow> string \<Rightarrow> exn + info_dict" where
  "parse_filename_pattern p_parse filename filename_pattern =
     (case p_parse filename_pattern filename of
        Inl e \<Rightarrow> Inl e
      | Inr info_dict \<Rightarrow>
          (case (case info_dict ''start_time'' of
                   Some (Datetime start_time) \<Rightarrow> Inr start_time
                 | Some (Time start_time) \<Rightarrow>
                     (case info_dict ''start_date'' of
                        None \<Rightarrow> Inl (ValueError ''start_time is a time object but start_date is missing or invalid.'')
                      | Some start_date \<Rightarrow>
                          (case combine start_date start_time of
                             None \<Rightarrow> Inl (ValueError ''start_time is a time object but start_date is missing or invalid.'')
                           | Some start_datetime \<Rightarrow> Inr start_datetime))
                 | _ \<Rightarrow> Inl (ValueError ''Invalid or missing start_time in info_dict.''))
           of
             Inl e \<Rightarrow> Inl e
           | Inr start_datetime \<Rightarrow>
               (case (case info_dict ''end_time'' of
                        Some (Datetime end_time) \<Rightarrow> Inr end_time
                      | Some (Time end_time) \<Rightarrow>
                          (case (case info_dict ''end_date'' of
                                   None \<Rightarrow> None
                                 | Some end_date \<Rightarrow> combine end_date end_time) of
                             Some end_datetime \<Rightarrow> Inr end_datetime
                           | None \<Rightarrow>
                               (let end_datetime = replace_hms start_datetime end_time
                                in if end_datetime < start_datetime
                                   then datetime_add_day end_datetime else Inr end_datetime))
                      | _ \<Rightarrow> Inl (ValueError ''Invalid or missing end_time in info_dict.''))
                of
                  Inl e \<Rightarrow> Inl e
                | Inr end_datetime \<Rightarrow>
                    Inr ((info_dict(''start_time'' \<mapsto> Datetime start_datetime,
                                    ''end_time'' \<mapsto> Datetime end_datetime))
                           (''start_date'' := None, ''end_date'' := None)))))"

text \<open>
  A Python call binds its arguments to the parameters of the function before the body
  runs. For a function whose parameters are plain names without defaults:
  more positional arguments than parameters, a keyword that names no parameter, a
  keyword for a parameter already given by position, or a parameter left without a
  value each raise \<open>TypeError\<close>.
\<close>

definition bind_args :: "string list \<Rightarrow> 'v list \<Rightarrow> (string \<times> 'v) list \<Rightarrow> exn + (string \<rightharpoonup> 'v)" where
  "bind_args params positional keywords =
     (if length params < length positional
        then Inl (TypeError ''too many positional arguments'')
      else if \<exists>k\<in>set (map fst keywords). k \<notin> set params
        then Inl (TypeError ''got an unexpected keyword argument'')
      else if \<exists>k\<in>set (map fst keywords). k \<in> set (take (length positional) params)
        then Inl (TypeError ''got multiple values for argument'')
      else if \<exists>q\<in>set (drop (length positional) params). q \<notin> set (map fst keywords)
        then Inl (TypeError ''missing required positional argument'')
      else Inr (map_of (zip params positional @ keywords)))"

text \<open>A call of \<open>parse_filename_pattern\<close> with the given positional and keyword
  arguments. Its parameters are \<open>filename\<close> and \<open>filename_pattern\<close>.\<close>

definition call_parse_filename_pattern ::
    "parser \<Rightarrow> string list \<Rightarrow> (string \<times> string) list \<Rightarrow> exn + info_dict" where
  "call_parse_filename_pattern p_parse positional keywords =
     (case bind_args [''filename'', ''filename_pattern''] positional keywords of
        Inl e \<Rightarrow> Inl e
      | Inr env \<Rightarrow>
          (case (env ''filename'', env ''filename_pattern'') of
             (Some filename, Some filename_pattern) \<Rightarrow>
               parse_filename_pattern p_parse filename filename_pattern
           | _ \<Rightarrow> Inl (TypeError ''missing required positional argument'')))"

text \<open>
  \<open>_get_info_from_filename\<close>. An argument that may be one string or a list is a value
  of \<open>str_or_list\<close>. The function returns either the dictionary or, as an ordinary
  return value, a \<open>ValueError\<close> object; it raises nothing itself.
  The loop calls \<open>parse_filename_pattern(filename, pattern=pattern)\<close>, swallows every
  exception of the call, and stops at the first dictionary that has both keys.
\<close>

datatype 'a str_or_list = OneStr string | Many "'a list"

datatype info_result = ReturnedValueError string | ReturnedInfo info_dict

fun try_patterns :: "parser \<Rightarrow> string \<Rightarrow> string list \<Rightarrow> info_dict option" where
  "try_patterns p_parse filename [] = None"
| "try_patterns p_parse filename (pattern # filename_patterns) =
     (case call_parse_filename_pattern p_parse [filename] [(''pattern'', pattern)] of
        Inr info_dict \<Rightarrow>
          (if info_dict ''start_time'' \<noteq> None \<and> info_dict ''end_time'' \<noteq> None
           then Some info_dict
           else try_patterns p_parse filename filename_patterns)
      | Inl e \<Rightarrow> try_patterns p_parse filename filename_patterns)"

definition get_info_from_filename :: "parser \<Rightarrow> string \<Rightarrow> string str_or_list \<Rightarrow> info_result" where
  "get_info_from_filename p_parse filename filename_patterns =
     (let filename_patterns = (case filename_patterns of OneStr s \<Rightarrow> [s] | Many l \<Rightarrow> l)
      in case try_patterns p_parse filename filename_patterns of
           None \<Rightarrow> ReturnedValueError ''Invalid pattern specified.''
         | Some info_dict \<Rightarrow> ReturnedInfo info_dict)"

text \<open>\<open>get_info_from_filepath\<close>: a file path that is not a string raises \<open>TypeError\<close>.\<close>

datatype pyobj = PyStr string | PyOther

definition get_info_from_filepath :: "parser \<Rightarrow> pyobj \<Rightarrow> string str_or_list \<Rightarrow> exn + info_result" where
  "get_info_from_filepath p_parse filepath filename_pattern =
     (case filepath of
        PyOther \<Rightarrow> Inl (TypeError (quoted ''filepath'' @ '' must be a string.''))
      | PyStr path \<Rightarrow> Inr (get_info_from_filename p_parse (basename path) filename_pattern))"

text \<open>\<open>get_key_from_filepath\<close>: the subscript \<open>[key]\<close> on the returned object. A
  \<open>ValueError\<close> object cannot be subscripted; a dictionary raises \<open>KeyError\<close> for
  a key it does not have.\<close>

definition get_key_from_filepath :: "parser \<Rightarrow> pyobj \<Rightarrow> string \<Rightarrow> string str_or_list \<Rightarrow> exn + pyval" where
  "get_key_from_filepath p_parse filepath key filename_pattern =
     (case get_info_from_filepath p_parse filepath filename_pattern of
        Inl e \<Rightarrow> Inl e
      | Inr (ReturnedValueError m) \<Rightarrow> Inl (TypeError (quoted ''ValueError'' @ '' object is not subscriptable''))
      | Inr (ReturnedInfo info_dict) \<Rightarrow>
          (case info_dict key of None \<Rightarrow> Inl (OtherError (''KeyError: '' @ key)) | Some v \<Rightarrow> Inr v))"

text \<open>\<open>get_key_from_filepaths\<close>: the list comprehension stops at the first exception.\<close>

fun keys_of_filepaths :: "parser \<Rightarrow> pyobj list \<Rightarrow> string \<Rightarrow> string str_or_list \<Rightarrow> exn + pyval list" where
  "keys_of_filepaths p_parse [] key filename_pattern = Inr []"
| "keys_of_filepaths p_parse (filepath # filepaths) key filename_pattern =
     (case get_key_from_filepath p_parse filepath key filename_pattern of
        Inl e \<Rightarrow> Inl e
      | Inr v \<Rightarrow>
          (case keys_of_filepaths p_parse filepaths key filename_pattern of
             Inl e \<Rightarrow> Inl e
           | Inr vs \<Rightarrow> Inr (v # vs)))"

definition get_key_from_filepaths ::
    "parser \<Rightarrow> pyobj str_or_list \<Rightarrow> string \<Rightarrow> string str_or_list \<Rightarrow> exn + pyval list" where
  "get_key_from_filepaths p_parse filepaths key filename_pattern =
     (let filepaths = (case filepaths of OneStr s \<Rightarrow> [PyStr s] | Many l \<Rightarrow> l)
      in keys_of_filepaths p_parse filepaths key filename_pattern)"

text \<open>
  The names bound at module level in info.py: its three imports and its functions.
  \<open>np\<close> is not among them, so evaluating \<open>np.array\<close> raises \<open>NameError\<close>.
\<close>

definition info_module_names :: "string list" where
  "info_module_names =
     [''os'', ''datetime'', ''Parser'', ''parse_filename_pattern'', ''_get_info_from_filename'',
      ''get_info_from_filepath'', ''get_key_from_filepath'', ''get_key_from_filepaths'',
      ''get_start_time_from_filepaths'', ''get_start_end_time_from_filepaths'']"

definition np_array :: "'a list \<Rightarrow> exn + 'a list" where
  "np_array xs =
     (if ''np'' \<in> set info_module_names then Inr xs
      else Inl (NameError (''name '' @ quoted ''np'' @ '' is not defined'')))"

definition get_start_end_time_from_filepaths ::
    "parser \<Rightarrow> pyobj str_or_list \<Rightarrow> string str_or_list \<Rightarrow> exn + (pyval list \<times> pyval list)" where
  "get_start_end_time_from_filepaths p_parse filepaths filename_pattern =
     (case get_key_from_filepaths p_parse filepaths ''start_time'' filename_pattern of
        Inl e \<Rightarrow> Inl e
      | Inr list_start_time \<Rightarrow>
          (case get_key_from_filepaths p_parse filepaths ''end_time'' filename_pattern of
             Inl e \<Rightarrow> Inl e
           | Inr list_end_time \<Rightarrow>
               (case np_array list_start_time of
                  Inl e \<Rightarrow> Inl e
                | Inr a \<Rightarrow>
                    (case np_array list_end_time of
                       Inl e \<Rightarrow> Inl e
                     | Inr b \<Rightarrow> Inr (a, b)))))"

section \<open>Granule ingestion (routines.py)\<close>

text \<open>
  \<open>os.path.splitext\<close> applied to a name without directory part: the name is cut at
  its last dot, unless only dots come before it.
\<close>

definition splitext :: "string \<Rightarrow> string \<times> string" where
  "splitext p =
     (let ext = rev (takeWhile (\<lambda>c. c \<noteq> CHR ''.'') (rev p));
          root = take (length p - length ext - 1) p
      in if CHR ''.'' \<in> set p \<and> (\<exists>c\<in>set root. c \<noteq> CHR ''.'')
         then (root, CHR ''.'' # ext) else (p, []))"




text \<open>
  The spatial partitioning object, as far as the ingestion uses it: its method
  \<open>add_labels(df, x, y)\<close>, which may raise, and its attributes \<open>order\<close> and \<open>flavor\<close>.
  \<open>'df\<close> is the type of data frames.
\<close>

record 'df spatial_partitioning =
  sp_add_labels :: "'df \<Rightarrow> string \<Rightarrow> string \<Rightarrow> exn + 'df"
  sp_order :: "string list"
  sp_flavor :: "string option"

text \<open>The keyword arguments handed on to the writer.\<close>

datatype kwval = KwBool bool | KwInt int | KwStr string

type_synonym kwargs = "string \<rightharpoonup> kwval"



text \<open>A task is a call that has not run yet: run on a file system it gives its result
  and the file system it left.\<close>

type_synonym ('r, 'fs) task = "'fs \<Rightarrow> 'r \<times> 'fs"

text \<open>
  The functions that routines.py imports from modules of the package that are not part
  of the sources at hand, and from dask, are parameters of the model:
  \<^item> \<open>write_bucket_info(bucket_dir, spatial_partitioning)\<close> (satbucket.io);
  \<^item> \<open>write_partitioned_dataset(df, base_dir, filename_prefix, partitions,
    partitioning_flavor, **writer_kwargs)\<close> (satbucket.writers);
  \<^item> \<open>compute_list_delayed(list_results, max_concurrent_tasks)\<close>
    (satbucket.utils.parallel), which receives the delayed calls and returns their
    results;
  \<^item> \<open>get_client()\<close>, \<open>clean_memory(client)\<close> and \<open>client.restart()\<close>, run one after
    the other at the end of a block (satbucket.utils.dask), as one operation.
\<close>

record ('df, 'fs) externals =
  write_bucket_info :: "string \<Rightarrow> 'df spatial_partitioning \<Rightarrow> 'fs \<Rightarrow> (exn + unit) \<times> 'fs"
  write_partitioned_dataset ::
    "'df \<Rightarrow> string \<Rightarrow> string \<Rightarrow> string list \<Rightarrow> string option \<Rightarrow> kwargs \<Rightarrow> 'fs \<Rightarrow> (exn + unit) \<times> 'fs"
  compute_list_delayed ::
    "((string \<times> string) option, 'fs) task list \<Rightarrow> int option \<Rightarrow> 'fs
       \<Rightarrow> (exn + (string \<times> string) option list) \<times> 'fs"
  restart_client :: "'fs \<Rightarrow> (exn + unit) \<times> 'fs"

text \<open>
  \<open>write_granule_bucket\<close>. The extraction function \<open>granule_to_df_func\<close> is supplied
  by the caller: it opens the granule and returns a data frame, returns \<open>None\<close>, or
  raises; like every call it is given the file system and returns the one it left.
\<close>

type_synonym ('df, 'fs) extractor = "string \<Rightarrow> 'fs \<Rightarrow> (exn + 'df option) \<times> 'fs"

definition write_granule_bucket ::
    "('df, 'fs) externals \<Rightarrow> string \<Rightarrow> string \<Rightarrow> 'df spatial_partitioning
       \<Rightarrow> ('df, 'fs) extractor \<Rightarrow> string \<Rightarrow> string \<Rightarrow> kwargs \<Rightarrow> 'fs \<Rightarrow> (exn + unit) \<times> 'fs" where
  "write_granule_bucket ext src_filepath bucket_dir spatial_partitioning granule_to_df_func
       x y writer_kwargs fs =
     (let filename_prefix = fst (splitext (basename src_filepath))
      in case granule_to_df_func src_filepath fs of
           (Inl e, fs) \<Rightarrow> (Inl e, fs)
         | (Inr None, fs) \<Rightarrow> (Inr (), fs)
         | (Inr (Some df), fs) \<Rightarrow>
             (case sp_add_labels spatial_partitioning df x y of
                Inl e \<Rightarrow> (Inl e, fs)
              | Inr df \<Rightarrow>
                  write_partitioned_dataset ext df bucket_dir filename_prefix
                    (sp_order spatial_partitioning) (sp_flavor spatial_partitioning)
                    writer_kwargs fs))"

text \<open>
  \<open>_try_write_granule_bucket\<close>: \<open>None\<close> when the call returned, the pair
  \<open>(src_filepath, str(e))\<close> when it raised an \<open>Exception\<close>.
\<close>

definition try_write_granule_bucket ::
    "('df, 'fs) externals \<Rightarrow> string \<Rightarrow> string \<Rightarrow> 'df spatial_partitioning
       \<Rightarrow> ('df, 'fs) extractor \<Rightarrow> string \<Rightarrow> string \<Rightarrow> kwargs
       \<Rightarrow> ((string \<times> string) option, 'fs) task" where
  "try_write_granule_bucket ext src_filepath bucket_dir spatial_partitioning granule_to_df_func
       x y writer_kwargs fs =
     (case write_granule_bucket ext src_filepath bucket_dir spatial_partitioning
             granule_to_df_func x y writer_kwargs fs of
        (Inr u, fs') \<Rightarrow> (None, fs')
      | (Inl e, fs') \<Rightarrow> (Some (src_filepath, str_exn e), fs'))"

text \<open>Calls made one after the other, as a list comprehension makes them.\<close>

fun run_tasks :: "('r, 'fs) task list \<Rightarrow> 'fs \<Rightarrow> 'r list \<times> 'fs" where
  "run_tasks [] fs = ([], fs)"
| "run_tasks (t # ts) fs =
     (case t fs of (r, fs') \<Rightarrow> (case run_tasks ts fs' of (rs, fs'') \<Rightarrow> (r # rs, fs'')))"





section \<open>Compaction (routines.py)\<close>

text \<open>
  \<open>group_files_by_time\<close> calls functions of numpy and of the module satbucket.filters,
  which is not part of the sources at hand. They are parameters of the model:
  \<^item> \<open>is_within_time_period(l_start_time, l_end_time, start_time, end_time)\<close>, which
    gives one truth value per file;
  \<^item> \<open>pd.Timestamp(l_start_time.min())\<close> and \<open>pd.Timestamp(l_end_time.max())\<close>, the
    reductions of numpy on the array of times, converted by pandas.
\<close>

record grouping_externals =
  is_within_time_period :: "pyval list \<Rightarrow> pyval list \<Rightarrow> timestamp \<Rightarrow> timestamp \<Rightarrow> bool list"
  min_timestamp :: "pyval list \<Rightarrow> exn + timestamp"
  max_timestamp :: "pyval list \<Rightarrow> exn + timestamp"

text \<open>\<open>filepaths[is_within_group]\<close>: the elements at which the mask is true.\<close>

definition mask_select :: "'a list \<Rightarrow> bool list \<Rightarrow> 'a list" where
  "mask_select values selected = map fst (filter snd (zip values selected))"

text \<open>\<open>d[key] = value\<close> on a dictionary kept as the list of its items in insertion
  order: a key already present keeps its place.\<close>

fun dict_set :: "('k \<times> 'v) list \<Rightarrow> 'k \<Rightarrow> 'v \<Rightarrow> ('k \<times> 'v) list" where
  "dict_set [] key v = [(key, v)]"
| "dict_set ((k, w) # items) key v =
     (if k = key then (k, v) # items else (k, w) # dict_set items key v)"

type_synonym groups_dict = "(string \<times> timestamp \<times> timestamp \<times> string list) list"

text \<open>The loop of \<open>group_files_by_time\<close> over the group periods.\<close>

fun group_loop ::
    "grouping_externals \<Rightarrow> string list \<Rightarrow> pyval list \<Rightarrow> pyval list \<Rightarrow> group_period list
       \<Rightarrow> groups_dict \<Rightarrow> groups_dict" where
  "group_loop ext filepaths l_start_time l_end_time [] groups_dict = groups_dict"
| "group_loop ext filepaths l_start_time l_end_time
       ((group_key, group_start_time, group_end_time) # list_group_periods) groups_dict =
     (let is_within_group =
            is_within_time_period ext l_start_time l_end_time group_start_time group_end_time;
          list_group_filepaths = mask_select filepaths is_within_group
      in group_loop ext filepaths l_start_time l_end_time list_group_periods
           (if 0 < length list_group_filepaths
            then dict_set groups_dict group_key
                   (group_start_time, group_end_time, list_group_filepaths)
            else groups_dict))"

text \<open>
  \<open>group_files_by_time\<close>. The file paths are strings. The times of the files are read
  from their names first; the group periods are computed after.
\<close>

definition group_files_by_time ::
    "parser \<Rightarrow> grouping_externals \<Rightarrow> string list \<Rightarrow> timestamp option \<Rightarrow> timestamp option
       \<Rightarrow> string \<Rightarrow> string str_or_list \<Rightarrow> exn + groups_dict" where
  "group_files_by_time p_parse ext filepaths start_time end_time temporal_partitioning
       filename_pattern =
     (case get_start_end_time_from_filepaths p_parse (Many (map PyStr filepaths))
             filename_pattern of
        Inl e \<Rightarrow> Inl e
      | Inr (l_start_time, l_end_time) \<Rightarrow>
     (case (case start_time of None \<Rightarrow> min_timestamp ext l_start_time | Some t \<Rightarrow> Inr t) of
        Inl e \<Rightarrow> Inl e
      | Inr start_time \<Rightarrow>
     (case (case end_time of None \<Rightarrow> max_timestamp ext l_end_time | Some t \<Rightarrow> Inr t) of
        Inl e \<Rightarrow> Inl e
      | Inr end_time \<Rightarrow>
     (case get_list_group_periods start_time end_time temporal_partitioning of
        Inl e \<Rightarrow> Inl e
      | Inr list_group_periods \<Rightarrow>
          Inr (group_loop ext filepaths l_start_time l_end_time list_group_periods [])))))"


section \<open>Properties of window lists\<close>

text \<open>A window is the triple \<open>(prefix, window_start, window_end)\<close> and stands for
  the half-open interval \<open>[window_start, window_end)\<close>.\<close>

definition window_start :: "'p \<times> 'a \<times> 'a \<Rightarrow> 'a" where
  "window_start w = fst (snd w)"

definition window_end :: "'p \<times> 'a \<times> 'a \<Rightarrow> 'a" where
  "window_end w = snd (snd w)"

definition window_interval :: "group_period \<Rightarrow> timestamp set" where
  "window_interval w = {window_start w..<window_end w}"

text \<open>Ordered by time: every window starts before each window that follows it.\<close>

definition windows_ordered :: "group_period list \<Rightarrow> bool" where
  "windows_ordered ws = sorted_wrt (\<lambda>a b. window_start a < window_start b) ws"

text \<open>Pairwise disjoint: two windows of the list share no instant.\<close>

definition windows_disjoint :: "group_period list \<Rightarrow> bool" where
  "windows_disjoint ws =
     (\<forall>i j. i < j \<and> j < length ws \<longrightarrow> window_interval (ws ! i) \<inter> window_interval (ws ! j) = {})"

text \<open>Contiguous: each window ends where the next one starts.\<close>

definition windows_contiguous :: "group_period list \<Rightarrow> bool" where
  "windows_contiguous ws =
     (\<forall>i. Suc i < length ws \<longrightarrow> window_end (ws ! i) = window_start (ws ! Suc i))"

text \<open>Cover: the union of the windows is exactly \<open>[s, e)\<close>.\<close>

definition windows_cover :: "timestamp \<Rightarrow> timestamp \<Rightarrow> group_period list \<Rightarrow> bool" where
  "windows_cover s e ws = ((\<Union>w\<in>set ws. window_interval w) = {s..<e})"

text \<open>The granularities that both \<open>get_time_prefix\<close> and
  \<open>get_partitioning_boundaries\<close> implement.\<close>

definition supported :: "string \<Rightarrow> bool" where
  "supported tp = (tp = ''year'' \<or> tp = ''month'' \<or> tp = ''quarter'' \<or> tp = ''day'')"

text \<open>
  Notions used in the proofs. A chain from \<open>s\<close> to \<open>e\<close> is a list of non-empty
  windows, the first starting at \<open>s\<close>, each one starting where the previous one ends,
  the last ending at \<open>e\<close>; the empty list is a chain only from \<open>s\<close> to \<open>s\<close>.
\<close>

fun chain :: "'a::linorder \<Rightarrow> 'a \<Rightarrow> ('p \<times> 'a \<times> 'a) list \<Rightarrow> bool" where
  "chain s e [] = (s = e)"
| "chain s e (w # ws) = (window_start w = s \<and> s < window_end w \<and> chain (window_end w) e ws)"

text \<open>The timestamps on the anchor of a frequency: the values \<open>date_range\<close> steps through.\<close>

fun anchor :: "freq \<Rightarrow> timestamp \<Rightarrow> bool" where
  "anchor YS t = (month t = 1 \<and> day t = 1 \<and> tod t = 0)"
| "anchor MS t = (1 \<le> month t \<and> month t \<le> 12 \<and> day t = 1 \<and> tod t = 0)"
| "anchor QS t = ((month t = 1 \<or> month t = 4 \<or> month t = 7 \<or> month t = 10) \<and> day t = 1 \<and> tod t = 0)"
| "anchor D t = (1 \<le> month t \<and> month t \<le> 12 \<and> 1 \<le> day t \<and> day t \<le> days_in_month (year t) (month t) \<and> tod t = 0)"

text \<open>What the loop of \<open>get_list_group_periods\<close> needs of the boundaries: the first is
  not after \<open>s\<close>, they increase, the last is not before \<open>e\<close>, and all but the first are
  after \<open>s\<close>.\<close>

definition good_boundaries :: "timestamp \<Rightarrow> timestamp \<Rightarrow> timestamp list \<Rightarrow> bool" where
  "good_boundaries s e bs =
     (bs \<noteq> [] \<and> hd bs \<le> s \<and> sorted_wrt (<) bs \<and> e \<le> last bs \<and> (\<forall>x\<in>set (tl bs). s < x))"

section \<open>Properties of the ingestion\<close>




text \<open>
  An instance for the examples. A data frame is the path of the granule it was read
  from; the file system is the list of the files of the bucket. The writer adds one
  file, named after the prefix, and the executor is the sequential one. The
  extraction function fails on the granule \<open>c.nc\<close>, returns \<open>None\<close> for the granule
  \<open>none.nc\<close> and a data frame for any other.
\<close>

definition example_externals :: "(string, string list) externals" where
  "example_externals =
     \<lparr>write_bucket_info = (\<lambda>bucket_dir spatial_partitioning fs. (Inr (), fs)),
      write_partitioned_dataset =
        (\<lambda>df base_dir filename_prefix partitions partitioning_flavor writer_kwargs fs.
           (Inr (), fs @ [base_dir @ ''/'' @ filename_prefix @ ''_0.parquet''])),
      compute_list_delayed =
        (\<lambda>tasks max_concurrent_tasks fs.
           case run_tasks tasks fs of (rs, fs') \<Rightarrow> (Inr rs, fs')),
      restart_client = (\<lambda>fs. (Inr (), fs))\<rparr>"

definition example_partitioning :: "string spatial_partitioning" where
  "example_partitioning =
     \<lparr>sp_add_labels = (\<lambda>df x y. Inr df), sp_order = [''lon_bin'', ''lat_bin''],
      sp_flavor = None\<rparr>"

definition example_extractor :: "(string, string list) extractor" where
  "example_extractor src_filepath fs =
     (if basename src_filepath = ''c.nc'' then (Inl (ValueError ''corrupt granule''), fs)
      else if basename src_filepath = ''none.nc'' then (Inr None, fs)
      else (Inr (Some src_filepath), fs))"


section \<open>Lemmas on the temporal grouping\<close>

lemma chain_le: "chain s e ws \<Longrightarrow> s \<le> e"
  by (induction ws arbitrary: s) (auto intro: order.trans less_imp_le)

lemma chain_bounds:
  "chain s e ws \<Longrightarrow> w \<in> set ws \<Longrightarrow> s \<le> window_start w \<and> window_start w < window_end w \<and> window_end w \<le> e"
proof (induction ws arbitrary: s)
  case Nil
  then show ?case by simp
next
  case (Cons a ws)
  show ?case
  proof (cases "w = a")
    case True
    with Cons.prems chain_le[of "window_end a" e ws] show ?thesis by auto
  next
    case False
    with Cons.prems have "w \<in> set ws" "chain (window_end a) e ws" "s < window_end a" by auto
    with Cons.IH[of "window_end a"] show ?thesis by (auto intro: order.trans less_imp_le)
  qed
qed

lemma chain_sorted: "chain s e ws \<Longrightarrow> sorted_wrt (\<lambda>a b. window_end a \<le> window_start b) ws"
proof (induction ws arbitrary: s)
  case Nil
  then show ?case by simp
next
  case (Cons a ws)
  then have c: "chain (window_end a) e ws" by simp
  with chain_bounds[OF c] Cons.IH[OF c] show ?case by auto
qed

lemma chain_union: "chain s e ws \<Longrightarrow> (\<Union>w\<in>set ws. {window_start w..<window_end w}) = {s..<e}"
proof (induction ws arbitrary: s)
  case Nil
  then show ?case by simp
next
  case (Cons a ws)
  then have c: "chain (window_end a) e ws" and a: "window_start a = s" "s < window_end a" by auto
  from chain_le[OF c] have le: "window_end a \<le> e" .
  have "{s..<window_end a} \<union> {window_end a..<e} = {s..<e}"
    using a le by (intro ivl_disj_un) auto
  with Cons.IH[OF c] a show ?case by simp
qed

lemma chain_contiguous:
  "chain s e ws \<Longrightarrow> Suc i < length ws \<Longrightarrow> window_end (ws ! i) = window_start (ws ! Suc i)"
proof (induction ws arbitrary: s i)
  case Nil
  then show ?case by simp
next
  case (Cons a ws)
  then have c: "chain (window_end a) e ws" by simp
  show ?case
  proof (cases i)
    case 0
    with Cons.prems c show ?thesis by (cases ws) auto
  next
    case (Suc j)
    with Cons.prems Cons.IH[OF c, of j] show ?thesis by simp
  qed
qed

lemma get_time_prefix_supported: "supported tp \<Longrightarrow> \<exists>p. get_time_prefix t tp = Inr p"
  by (auto simp: supported_def get_time_prefix_def Let_def)

lemma loop_chain:
  assumes "supported tp" "sorted_wrt (<) (b # bs)" "e \<le> last (b # bs)" "\<forall>x\<in>set bs. s < x"
  shows "\<exists>ws. group_periods_loop s e tp (b # bs) = Inr ws \<and>
              (if max b s < e then chain (max b s) e ws else ws = [])"
  using assms(2-)
proof (induction bs arbitrary: b)
  case Nil
  obtain p where p: "get_time_prefix (max b s) tp = Inr p"
    using get_time_prefix_supported[OF assms(1)] by blast
  from Nil have "e \<le> b" by simp
  then have "\<not> max b s < e" by (simp add: leD)
  then show ?case using p by (simp add: Let_def del: max_less_iff_conj min_less_iff_conj)
next
  case (Cons b' bs)
  obtain p where p: "get_time_prefix (max b s) tp = Inr p"
    using get_time_prefix_supported[OF assms(1)] by blast
  from Cons.prems have prem': "sorted_wrt (<) (b' # bs)" "e \<le> last (b' # bs)" "\<forall>x\<in>set bs. s < x"
    and sb': "s < b'" and bb': "b < b'" by auto
  from Cons.IH[OF prem'] obtain ws' where
    ws': "group_periods_loop s e tp (b' # bs) = Inr ws'"
    and ih: "if max b' s < e then chain (max b' s) e ws' else ws' = []" by blast
  have mb': "max b' s = b'" using sb' by (simp add: max_absorb1 less_imp_le)
  have gs: "max b s < b'" using sb' bb' by (simp del: less_prod_simp)
  show ?case
  proof (cases "max b s < min b' e")
    case True
    then have lt: "max b s < e" by simp
    have "chain (min b' e) e ws'"
    proof (cases "b' < e")
      case True
      then show ?thesis using ih mb' by (simp add: min_absorb1 less_imp_le)
    next
      case False
      then have "min b' e = e" by (simp add: min_absorb2 not_less)
      moreover have "ws' = []" using ih mb' False by simp
      ultimately show ?thesis by simp
    qed
    with True lt show ?thesis using p ws'
      by (simp add: Let_def window_start_def window_end_def del: max_less_iff_conj min_less_iff_conj)
  next
    case False
    then have "e \<le> max b s" using gs
      by (metis min_less_iff_conj not_less)
    then have nlt: "\<not> max b s < e" by (rule leD)
    have "\<not> b' < e" using \<open>e \<le> max b s\<close> gs
      by (metis less_le_trans less_asym)
    then have "ws' = []" using ih mb' by simp
    with False nlt show ?thesis using p ws'
      by (simp add: Let_def del: max_less_iff_conj min_less_iff_conj)
  qed
qed

lemmas field_defs = year_def month_def day_def tod_def

lemma days_in_month_ge: "28 \<le> days_in_month y m"
  by (simp add: days_in_month_def)

lemma anchor_step: "anchor f t \<Longrightarrow> anchor f (freq_step f t)"
  using days_in_month_ge[of "year t" "month t + 1"] days_in_month_ge[of "year t + 1" 1]
  by (cases f; cases t) (auto simp: field_defs add_day_def)

lemma less_step: "anchor f t \<Longrightarrow> t < freq_step f t"
  by (cases f; cases t) (auto simp: field_defs add_day_def)

lemma step_le_D:
  assumes "anchor D a" "anchor D b" "a < b"
  shows "freq_step D a \<le> b"
proof -
  obtain y m d t where a: "a = (y, m, d, t)" by (cases a) auto
  obtain y' m' d' t' where b: "b = (y', m', d', t')" by (cases b) auto
  from assms(1) have va: "1 \<le> m" "m \<le> 12" "1 \<le> d" "d \<le> days_in_month y m" "t = 0"
    by (simp_all add: a field_defs)
  from assms(2) have vb: "1 \<le> m'" "m' \<le> 12" "1 \<le> d'" "d' \<le> days_in_month y' m'" "t' = 0"
    by (simp_all add: b field_defs)
  from assms(3) have lt: "y < y' \<or> (y = y' \<and> (m < m' \<or> (m = m' \<and> d < d')))"
    using va(5) vb(5) by (auto simp: a b)
  show ?thesis
  proof (cases "y = y' \<and> m = m'")
    case True
    with lt have "d < d'" by auto
    with True va vb show ?thesis by (simp add: a b field_defs add_day_def)
  next
    case False
    with lt have "y < y' \<or> (y = y' \<and> m < m')" by auto
    with va vb show ?thesis by (auto simp: a b field_defs add_day_def)
  qed
qed

lemma step_le: "anchor f a \<Longrightarrow> anchor f b \<Longrightarrow> a < b \<Longrightarrow> freq_step f a \<le> b"
proof (cases f)
  case D
  assume "anchor f a" "anchor f b" "a < b"
  with D show ?thesis using step_le_D by simp
qed (cases a; cases b; auto simp: field_defs)+

lemma date_range_props:
  "anchor f cur \<Longrightarrow> anchor f e \<Longrightarrow> cur \<le> e \<Longrightarrow>
     date_range cur e f = cur # date_range (freq_step f cur) e f \<and>
     last (date_range cur e f) = e \<and>
     sorted_wrt (<) (date_range cur e f) \<and>
     (\<forall>x\<in>set (date_range cur e f). cur \<le> x)"
proof (induction cur e f rule: date_range.induct)
  case (1 cur e f)
  let ?nx = "freq_step f cur"
  have unf: "date_range cur e f = cur # date_range ?nx e f"
    using "1.prems"(3) by (subst date_range.simps) simp
  show ?case
  proof (cases "cur = e")
    case True
    then have "\<not> ?nx \<le> e" using less_step[OF "1.prems"(1)] by (simp add: leD)
    then have "date_range ?nx e f = []" by (subst date_range.simps) simp
    with unf True show ?thesis by simp
  next
    case False
    with "1.prems"(3) have "cur < e" by (rule_tac le_neq_trans) 
    then have le: "?nx \<le> e" using step_le "1.prems" by blast
    from "1.IH"[OF "1.prems"(3) anchor_step[OF "1.prems"(1)] "1.prems"(2) le]
    have ih: "date_range ?nx e f = ?nx # date_range (freq_step f ?nx) e f"
        "last (date_range ?nx e f) = e" "sorted_wrt (<) (date_range ?nx e f)"
        "\<forall>x\<in>set (date_range ?nx e f). ?nx \<le> x" by blast+
    have lt: "cur < ?nx" by (rule less_step[OF "1.prems"(1)])
    have "\<forall>x\<in>set (date_range ?nx e f). cur < x"
      using ih(4) lt by (metis less_le_trans)
    then show ?thesis using unf ih(1,2,3)
      by (metis last_ConsR list.distinct(1) order_refl less_imp_le set_ConsD sorted_wrt.simps(2))
  qed
qed

lemma date_range_tail_ge:
  assumes "anchor f b" "anchor f e"
  shows "\<forall>x\<in>set (date_range (freq_step f b) e f). freq_step f b \<le> x"
proof (cases "freq_step f b \<le> e")
  case True
  from date_range_props[OF anchor_step[OF assms(1)] assms(2) True] show ?thesis by blast
next
  case False
  then have "date_range (freq_step f b) e f = []" by (subst date_range.simps) simp
  then show ?thesis by simp
qed

lemma boundaries_ok:
  assumes "anchor f b0" "anchor f e'" "b0 \<le> s" "s < freq_step f b0" "s \<le> e" "e \<le> e'"
  shows "\<exists>bs. date_range b0 e' f = b0 # bs \<and> sorted_wrt (<) (b0 # bs) \<and> e \<le> last (b0 # bs)
              \<and> (\<forall>x\<in>set bs. s < x)"
proof -
  have le: "b0 \<le> e'" using assms(3,5,6) by (meson order.trans)
  from date_range_props[OF assms(1,2) le]
  have unf: "date_range b0 e' f = b0 # date_range (freq_step f b0) e' f"
    and last: "last (date_range b0 e' f) = e'"
    and srt: "sorted_wrt (<) (date_range b0 e' f)" by blast+
  have "\<forall>x\<in>set (date_range (freq_step f b0) e' f). s < x"
    using date_range_tail_ge[OF assms(1,2)] assms(4) by (metis less_le_trans)
  then show ?thesis using unf last srt assms(6) by metis
qed

lemma div12: "1 \<le> (m::int) \<Longrightarrow> m \<le> 12 \<Longrightarrow> (y * 12 + (m - 1) + 12) div 12 = y + 1"
  by presburger

lemma div1: "1 \<le> (m::int) \<Longrightarrow> m \<le> 12 \<Longrightarrow>
  (y * 12 + (m - 1) + 1) div 12 = (if m < 12 then y else y + 1)
  \<and> (y * 12 + (m - 1) + 1) mod 12 + 1 = (if m < 12 then m + 1 else 1)"
  by presburger

lemma div3: "1 \<le> (m::int) \<Longrightarrow> m \<le> 12 \<Longrightarrow>
  (y * 12 + (m - 1) + 3) div 12 = (if m + 3 \<le> 12 then y else y + 1)
  \<and> (y * 12 + (m - 1) + 3) mod 12 + 1 = (if m + 3 \<le> 12 then m + 3 else m + 3 - 12)"
  by presburger

lemma quarter_month: "1 \<le> (m::int) \<Longrightarrow> m \<le> 12 \<Longrightarrow>
  3 * ((m - 1) div 3 + 1 - 1) + 1 \<in> {1, 4, 7, 10} \<and>
  3 * ((m - 1) div 3 + 1 - 1) + 1 \<le> m \<and> m < 3 * ((m - 1) div 3 + 1 - 1) + 1 + 3"
  by (simp; presburger)

lemma good_boundaries_date_range:
  assumes "anchor f b0" "anchor f e'" "b0 \<le> s" "s < freq_step f b0" "s \<le> e" "e \<le> e'"
  shows "good_boundaries s e (date_range b0 e' f)"
proof -
  from boundaries_ok[OF assms] obtain bs where
    "date_range b0 e' f = b0 # bs" "sorted_wrt (<) (b0 # bs)" "e \<le> last (b0 # bs)"
    "\<forall>x\<in>set bs. s < x" by blast
  then show ?thesis using assms(3) by (simp add: good_boundaries_def)
qed

lemma year_mono: "(s::timestamp) \<le> e \<Longrightarrow> year s \<le> year e"
  by (cases s, cases e) (auto simp: year_def)

lemma in_bounds_year: "1678 \<le> year t \<Longrightarrow> year t \<le> 2261 \<Longrightarrow> in_bounds t"
  by (cases t) (auto simp: in_bounds_def Timestamp_min_def Timestamp_max_def year_def)

lemma bounded_Inr: "1678 \<le> year t \<Longrightarrow> year t \<le> 2261 \<Longrightarrow> bounded t = Inr t"
  by (simp add: bounded_def in_bounds_year)

lemma Timestamp_Inr: "1678 \<le> y \<Longrightarrow> y \<le> 2261 \<Longrightarrow> Timestamp y m d = Inr (midnight y m d)"
  by (simp add: Timestamp_def bounded_Inr midnight_def year_def)

lemma normalize_Inr:
  "1678 \<le> year t \<Longrightarrow> year t \<le> 2261 \<Longrightarrow> normalize t = Inr (floor_day t)"
  by (simp add: normalize_def bounded_Inr floor_day_def year_def)

lemma DateOffset_months_Inr:
  "1678 \<le> year (add_months k t) \<Longrightarrow> year (add_months k t) \<le> 2261
   \<Longrightarrow> DateOffset_months k t = Inr (add_months k t)"
  by (simp add: DateOffset_months_def bounded_Inr)

lemma DateOffset_years_Inr:
  "1678 \<le> year (add_months 12 t) \<Longrightarrow> year (add_months 12 t) \<le> 2261
   \<Longrightarrow> DateOffset_years 1 t = Inr (add_months 12 t)"
  by (simp add: DateOffset_years_def bounded_Inr)

lemma DateOffset_day_Inr:
  "1678 \<le> year (add_day t) \<Longrightarrow> year (add_day t) \<le> 2261
   \<Longrightarrow> DateOffset_day t = Inr (add_day t)"
  by (simp add: DateOffset_day_def bounded_Inr)

lemma boundaries_year:
  assumes "valid_timestamp s" "valid_timestamp e" "s \<le> e" "1678 \<le> year s" "year e \<le> 2260"
  shows "\<exists>bs. get_partitioning_boundaries s e ''year'' = Inr bs \<and> good_boundaries s e bs"
proof -
  obtain y m d t where s: "s = (y, m, d, t)" by (cases s) auto
  obtain y' m' d' t' where e: "e = (y', m', d', t')" by (cases e) auto
  from assms(1) have vs: "1 \<le> m" "m \<le> 12" "1 \<le> d" "0 \<le> t"
    by (simp_all add: s valid_timestamp_def field_defs)
  from assms(2) have ve: "1 \<le> m'" "m' \<le> 12" "1 \<le> d'" "0 \<le> t'"
    by (simp_all add: e valid_timestamp_def field_defs)
  define e2 where "e2 = (if e \<noteq> midnight (year e) 1 1 then add_months 12 e else e)"
  have ye2: "year e2 = (if e \<noteq> (y', 1, 1, 0) then y' + 1 else y')"
    using ve div12[of m' y']
    by (simp add: e2_def e midnight_def add_months_def field_defs Let_def)
  have a1: "anchor YS (midnight (year s) 1 1)" by (simp add: midnight_def field_defs)
  have a2: "anchor YS (midnight (year e2) 1 1)" by (simp add: midnight_def field_defs)
  have b0: "midnight (year s) 1 1 \<le> s" using vs by (auto simp: midnight_def s field_defs)
  have st: "s < freq_step YS (midnight (year s) 1 1)" by (simp add: midnight_def s field_defs)
  have ee: "e \<le> midnight (year e2) 1 1"
    using ve by (auto simp: ye2 midnight_def e)
  have yb: "1678 \<le> year s" "year s \<le> 2261" "1678 \<le> year e" "year e \<le> 2261"
    using assms(4,5) year_mono[OF assms(3)] by simp_all
  have y2: "year (add_months 12 e) = year e + 1"
    using ve div12[of m' y'] by (simp add: e add_months_def field_defs Let_def)
  have y2b: "1678 \<le> year (add_months 12 e)" "year (add_months 12 e) \<le> 2261"
    using yb assms(5) by (simp_all add: y2)
  have "get_partitioning_boundaries s e ''year''
        = Inr (date_range (midnight (year s) 1 1) (midnight (year e2) 1 1) YS)"
    by (simp add: get_partitioning_boundaries_def e2_def Timestamp_Inr DateOffset_years_Inr yb y2b)
  with good_boundaries_date_range[OF a1 a2 b0 st assms(3) ee] show ?thesis by simp
qed

lemma boundaries_month:
  assumes "valid_timestamp s" "valid_timestamp e" "s \<le> e" "1678 \<le> year s" "year e \<le> 2260"
  shows "\<exists>bs. get_partitioning_boundaries s e ''month'' = Inr bs \<and> good_boundaries s e bs"
proof -
  obtain y m d t where s: "s = (y, m, d, t)" by (cases s) auto
  obtain y' m' d' t' where e: "e = (y', m', d', t')" by (cases e) auto
  from assms(1) have vs: "1 \<le> m" "m \<le> 12" "1 \<le> d" "0 \<le> t"
    by (simp_all add: s valid_timestamp_def field_defs)
  from assms(2) have ve: "1 \<le> m'" "m' \<le> 12" "1 \<le> d'" "0 \<le> t'"
    by (simp_all add: e valid_timestamp_def field_defs)
  define e2 where "e2 = (if e \<noteq> midnight (year e) (month e) 1 then add_months 1 e else e)"
  have ym: "(year e2, month e2) = (if e \<noteq> (y', m', 1, 0)
              then (if m' < 12 then (y', m' + 1) else (y' + 1, 1)) else (y', m'))"
    using ve div1[of m' y']
    by (simp add: e2_def e midnight_def add_months_def field_defs Let_def)
  then have ye2: "year e2 = (if e \<noteq> (y', m', 1, 0) then (if m' < 12 then y' else y' + 1) else y')"
    and me2: "month e2 = (if e \<noteq> (y', m', 1, 0) then (if m' < 12 then m' + 1 else 1) else m')"
    by (auto split: if_splits)
  have a1: "anchor MS (midnight (year s) (month s) 1)" using vs by (simp add: midnight_def s field_defs)
  have "1 \<le> month e2 \<and> month e2 \<le> 12" using ve by (simp add: me2)
  then have a2: "anchor MS (midnight (year e2) (month e2) 1)"
    by (simp add: midnight_def field_defs)
  have b0: "midnight (year s) (month s) 1 \<le> s" using vs by (auto simp: midnight_def s field_defs)
  have st: "s < freq_step MS (midnight (year s) (month s) 1)"
    using vs by (simp add: midnight_def s field_defs)
  have ee: "e \<le> midnight (year e2) (month e2) 1"
    using ve by (auto simp: ye2 me2 midnight_def e)
  have yb: "1678 \<le> year s" "year s \<le> 2261" "1678 \<le> year e" "year e \<le> 2261"
    using assms(4,5) year_mono[OF assms(3)] by simp_all
  have y2: "year (add_months 1 e) = (if m' < 12 then year e else year e + 1)"
    using ve div1[of m' y'] by (simp add: e add_months_def field_defs Let_def)
  have y2b: "1678 \<le> year (add_months 1 e)" "year (add_months 1 e) \<le> 2261"
    using yb assms(5) by (simp_all add: y2)
  have "get_partitioning_boundaries s e ''month''
        = Inr (date_range (midnight (year s) (month s) 1) (midnight (year e2) (month e2) 1) MS)"
    by (simp add: get_partitioning_boundaries_def e2_def Timestamp_Inr DateOffset_months_Inr yb y2b)
  with good_boundaries_date_range[OF a1 a2 b0 st assms(3) ee] show ?thesis by simp
qed

lemma boundaries_day:
  assumes "valid_timestamp s" "valid_timestamp e" "s \<le> e" "1678 \<le> year s" "year e \<le> 2260"
  shows "\<exists>bs. get_partitioning_boundaries s e ''day'' = Inr bs \<and> good_boundaries s e bs"
proof -
  obtain y m d t where s: "s = (y, m, d, t)" by (cases s) auto
  obtain y' m' d' t' where e: "e = (y', m', d', t')" by (cases e) auto
  from assms(1) have vs: "1 \<le> m" "m \<le> 12" "1 \<le> d" "d \<le> days_in_month y m" "0 \<le> t"
    by (simp_all add: s valid_timestamp_def field_defs)
  from assms(2) have ve: "1 \<le> m'" "m' \<le> 12" "1 \<le> d'" "d' \<le> days_in_month y' m'" "0 \<le> t'"
    by (simp_all add: e valid_timestamp_def field_defs)
  define e2 where "e2 = (if e \<noteq> floor_day e then add_day (floor_day e) else e)"
  have an: "anchor D (floor_day e)" using ve by (simp add: floor_day_def e field_defs)
  have a1: "anchor D (midnight (year s) (month s) (day s))"
    using vs by (simp add: midnight_def s field_defs)
  have a2: "anchor D e2"
  proof (cases "e \<noteq> floor_day e")
    case True
    then show ?thesis using anchor_step[OF an] by (simp add: e2_def)
  next
    case False
    then show ?thesis using an by (simp add: e2_def)
  qed
  have b0: "midnight (year s) (month s) (day s) \<le> s"
    using vs by (auto simp: midnight_def s field_defs)
  have st: "s < freq_step D (midnight (year s) (month s) (day s))"
    using vs by (simp add: midnight_def s field_defs add_day_def)
  have ee: "e \<le> e2"
  proof (cases "e \<noteq> floor_day e")
    case True
    then show ?thesis using ve
      by (simp add: e2_def e floor_day_def field_defs add_day_def)
  next
    case False
    then show ?thesis by (simp add: e2_def)
  qed
  have yb: "1678 \<le> year s" "year s \<le> 2261" "1678 \<le> year e" "year e \<le> 2261"
    using assms(4,5) year_mono[OF assms(3)] by simp_all
  have y2: "year (add_day (floor_day e)) = year e \<or> year (add_day (floor_day e)) = year e + 1"
    by (simp add: e add_day_def floor_day_def field_defs)
  have y2b: "1678 \<le> year (add_day (floor_day e))" "year (add_day (floor_day e)) \<le> 2261"
    using yb assms(5) y2 by auto
  have "get_partitioning_boundaries s e ''day''
        = Inr (date_range (midnight (year s) (month s) (day s)) e2 D)"
    by (simp add: get_partitioning_boundaries_def e2_def Timestamp_Inr normalize_Inr
          DateOffset_day_Inr yb y2b)
  with good_boundaries_date_range[OF a1 a2 b0 st assms(3) ee] show ?thesis by simp
qed

lemma quarter_start_cases:
  "1 \<le> (m::int) \<Longrightarrow> m \<le> 12 \<Longrightarrow>
   3 * ((m - 1) div 3 + 1 - 1) + 1 = (if m \<le> 3 then 1 else if m \<le> 6 then 4 else if m \<le> 9 then 7 else 10)"
  by presburger

lemma boundaries_quarter:
  assumes "valid_timestamp s" "valid_timestamp e" "s \<le> e" "1678 \<le> year s" "year e \<le> 2260"
  shows "\<exists>bs. get_partitioning_boundaries s e ''quarter'' = Inr bs \<and> good_boundaries s e bs"
proof -
  obtain y m d t where s: "s = (y, m, d, t)" by (cases s) auto
  obtain y' m' d' t' where e: "e = (y', m', d', t')" by (cases e) auto
  from assms(1) have vs: "1 \<le> m" "m \<le> 12" "1 \<le> d" "0 \<le> t"
    by (simp_all add: s valid_timestamp_def field_defs)
  from assms(2) have ve: "1 \<le> m'" "m' \<le> 12" "1 \<le> d'" "0 \<le> t'"
    by (simp_all add: e valid_timestamp_def field_defs)
  define qs where "qs = 3 * ((month s - 1) div 3 + 1 - 1) + 1"
  define qe where "qe = 3 * ((month e - 1) div 3 + 1 - 1) + 1"
  define e2 where "e2 = add_months 3 e"
  define qe2 where "qe2 = 3 * ((month e2 - 1) div 3 + 1 - 1) + 1"
  define ef where "ef = (if e \<noteq> midnight (year e) qe 1 then midnight (year e2) qe2 1
                          else midnight (year e) qe 1)"
  have qsv: "qs = (if m \<le> 3 then 1 else if m \<le> 6 then 4 else if m \<le> 9 then 7 else 10)"
    using quarter_start_cases[OF vs(1,2)] by (simp add: qs_def s field_defs)
  have qev: "qe = (if m' \<le> 3 then 1 else if m' \<le> 6 then 4 else if m' \<le> 9 then 7 else 10)"
    using quarter_start_cases[OF ve(1,2)] by (simp add: qe_def e field_defs)
  have ym2: "year e2 = (if m' + 3 \<le> 12 then y' else y' + 1)"
            "month e2 = (if m' + 3 \<le> 12 then m' + 3 else m' + 3 - 12)"
    using ve div3[of m' y']
    by (simp_all add: e2_def e add_months_def field_defs Let_def)
  have m2: "1 \<le> month e2" "month e2 \<le> 12" using ve by (auto simp: ym2)
  have qe2v: "qe2 = (if month e2 \<le> 3 then 1 else if month e2 \<le> 6 then 4
                     else if month e2 \<le> 9 then 7 else 10)"
    using quarter_start_cases[OF m2] by (simp add: qe2_def)
  have a1: "anchor QS (midnight (year s) qs 1)" by (simp add: qsv midnight_def field_defs)
  have q1: "anchor QS (midnight (year e2) qe2 1)" by (simp add: qe2v midnight_def field_defs)
  have q2: "anchor QS (midnight (year e) qe 1)" by (simp add: qev midnight_def field_defs)
  have a2: "anchor QS ef" unfolding ef_def using q1 q2 by (rule_tac if_split[THEN iffD2]) blast
  have b0: "midnight (year s) qs 1 \<le> s" using vs by (auto simp: qsv midnight_def s field_defs)
  have st: "s < freq_step QS (midnight (year s) qs 1)"
    using vs by (auto simp: qsv midnight_def s field_defs)
  have ee: "e \<le> ef"
  proof (cases "e \<noteq> midnight (year e) qe 1")
    case True
    have "e \<le> (year e2, qe2, 1, 0)"
      using ve by (auto simp: qe2v ym2 e)
    with True show ?thesis by (simp add: ef_def midnight_def)
  next
    case False
    then show ?thesis by (simp add: ef_def)
  qed
  have yb: "1678 \<le> year s" "year s \<le> 2261" "1678 \<le> year e" "year e \<le> 2261"
    using assms(4,5) year_mono[OF assms(3)] by simp_all
  have y2b: "1678 \<le> year (add_months 3 e)" "year (add_months 3 e) \<le> 2261"
    using yb assms(5) ym2(1) by (simp_all add: e2_def e field_defs)
  have "get_partitioning_boundaries s e ''quarter'' = Inr (date_range (midnight (year s) qs 1) ef QS)"
    by (cases "e = midnight (year e) qe 1")
       (simp_all add: get_partitioning_boundaries_def ef_def qs_def qe_def qe2_def e2_def Let_def
          Timestamp_Inr DateOffset_months_Inr yb y2b add.commute)
  with good_boundaries_date_range[OF a1 a2 b0 st assms(3) ee] show ?thesis by simp
qed

lemma boundaries_supported:
  assumes "supported tp" "valid_timestamp s" "valid_timestamp e" "s \<le> e"
    "1678 \<le> year s" "year e \<le> 2260"
  shows "\<exists>bs. get_partitioning_boundaries s e tp = Inr bs \<and> good_boundaries s e bs"
proof -
  from assms(1) consider "tp = ''year''" | "tp = ''month''" | "tp = ''quarter''" | "tp = ''day''"
    unfolding supported_def by blast
  then show ?thesis
  proof cases
    case 1
    then show ?thesis using boundaries_year[OF assms(2-)] by simp
  next
    case 2
    then show ?thesis using boundaries_month[OF assms(2-)] by simp
  next
    case 3
    then show ?thesis using boundaries_quarter[OF assms(2-)] by simp
  next
    case 4
    then show ?thesis using boundaries_day[OF assms(2-)] by simp
  qed
qed

lemma periods_chain:
  assumes "supported tp" "valid_timestamp s" "valid_timestamp e" "s \<le> e"
    "1678 \<le> year s" "year e \<le> 2260"
  shows "\<exists>ws. get_list_group_periods s e tp = Inr ws \<and> chain s e ws"
proof -
  from boundaries_supported[OF assms] obtain bs where
    bs: "get_partitioning_boundaries s e tp = Inr bs" and g: "good_boundaries s e bs" by blast
  from g obtain b rest where br: "bs = b # rest" by (cases bs) (auto simp: good_boundaries_def)
  from g br have p: "b \<le> s" "sorted_wrt (<) (b # rest)" "e \<le> last (b # rest)" "\<forall>x\<in>set rest. s < x"
    by (simp_all add: good_boundaries_def)
  from loop_chain[OF assms(1) p(2,3,4)] obtain ws where
    ws: "group_periods_loop s e tp (b # rest) = Inr ws"
    and c: "if max b s < e then chain (max b s) e ws else ws = []" by blast
  have mx: "max b s = s" using p(1) by (simp add: max_absorb2)
  have "chain s e ws"
  proof (cases "s < e")
    case True
    then show ?thesis using c mx by simp
  next
    case False
    then have "s = e" using assms(4) by (simp add: order.order_iff_strict)
    moreover have "ws = []" using c mx False by simp
    ultimately show ?thesis by simp
  qed
  then show ?thesis using bs ws br by (simp add: get_list_group_periods_def)
qed

lemma chain_ordered: "chain s e ws \<Longrightarrow> windows_ordered ws"
proof -
  assume c: "chain s e ws"
  have "sorted_wrt (\<lambda>a b. window_end a \<le> window_start b) ws" by (rule chain_sorted[OF c])
  moreover have "\<forall>w\<in>set ws. window_start w < window_end w" using chain_bounds[OF c] by blast
  ultimately show ?thesis unfolding windows_ordered_def
    by (induction ws) (auto intro: less_le_trans)
qed

lemma ivl_disjoint: "(b::'a::linorder) \<le> c \<Longrightarrow> {a..<b} \<inter> {c..<d} = {}"
  by auto

lemma chain_disjoint: "chain s e ws \<Longrightarrow> windows_disjoint ws"
proof -
  assume c: "chain s e ws"
  have srt: "sorted_wrt (\<lambda>a b. window_end a \<le> window_start b) ws" by (rule chain_sorted[OF c])
  show ?thesis unfolding windows_disjoint_def
  proof (intro allI impI)
    fix i j assume ij: "i < j \<and> j < length ws"
    then have "window_end (ws ! i) \<le> window_start (ws ! j)"
      using sorted_wrt_nth_less[OF srt] by blast
    then show "window_interval (ws ! i) \<inter> window_interval (ws ! j) = {}"
      unfolding window_interval_def by (rule ivl_disjoint)
  qed
qed

lemma chain_empty: "chain s s ws \<Longrightarrow> ws = []"
proof (cases ws)
  case Nil
  then show ?thesis by simp
next
  case (Cons w rest)
  assume c: "chain s s ws"
  with Cons have "s < window_end w" "chain (window_end w) s rest" by auto
  with chain_le[of "window_end w" s rest] show ?thesis by (simp add: leD)
qed

text \<open>The definitions that evaluate the grouping on a concrete range.\<close>

lemmas eval_defs = get_list_group_periods_def get_partitioning_boundaries_def
  Timestamp_def normalize_def DateOffset_months_def DateOffset_years_def DateOffset_day_def
  bounded_def in_bounds_def Timestamp_min_def Timestamp_max_def
  midnight_def floor_day_def add_months_def add_day_def
  year_def month_def day_def tod_def days_in_month_def is_leap_def
  date_range.simps get_time_prefix_def str_int_def str_nat.simps digit_char_def Let_def

section \<open>Facts about the file name information\<close>

text \<open>Called with its two arguments by position, \<open>parse_filename_pattern\<close> runs its body.\<close>

lemma call_positional:
  "call_parse_filename_pattern p_parse [filename, filename_pattern] []
     = parse_filename_pattern p_parse filename filename_pattern"
  by (simp add: call_parse_filename_pattern_def bind_args_def)

text \<open>Called with the keyword \<open>pattern\<close>, the call fails before the body runs.\<close>

lemma call_keyword_pattern:
  "call_parse_filename_pattern p_parse [filename] [(''pattern'', pattern)]
     = Inl (TypeError ''got an unexpected keyword argument'')"
  by (simp add: call_parse_filename_pattern_def bind_args_def)

lemma try_patterns_None:
  "try_patterns p_parse filename filename_patterns = None"
  by (induction filename_patterns) (simp_all add: call_keyword_pattern)

lemma get_info_from_filename_ValueError:
  "get_info_from_filename p_parse filename filename_patterns
     = ReturnedValueError ''Invalid pattern specified.''"
  by (simp add: get_info_from_filename_def try_patterns_None)

lemma get_key_from_filepath_PyStr:
  "get_key_from_filepath p_parse (PyStr path) key filename_pattern
     = Inl (TypeError (quoted ''ValueError'' @ '' object is not subscriptable''))"
  by (simp add: get_key_from_filepath_def get_info_from_filepath_def
        get_info_from_filename_ValueError)

lemma get_key_from_filepath_PyOther:
  "get_key_from_filepath p_parse PyOther key filename_pattern
     = Inl (TypeError (quoted ''filepath'' @ '' must be a string.''))"
  by (simp add: get_key_from_filepath_def get_info_from_filepath_def)

lemma get_start_end_time_PyStr:
  "get_start_end_time_from_filepaths p_parse (Many (PyStr path # filepaths)) filename_pattern
     = Inl (TypeError (quoted ''ValueError'' @ '' object is not subscriptable''))"
  by (simp add: get_start_end_time_from_filepaths_def get_key_from_filepaths_def
        get_key_from_filepath_PyStr)

lemma get_start_end_time_OneStr:
  "get_start_end_time_from_filepaths p_parse (OneStr path) filename_pattern
     = Inl (TypeError (quoted ''ValueError'' @ '' object is not subscriptable''))"
  by (simp add: get_start_end_time_from_filepaths_def get_key_from_filepaths_def
        get_key_from_filepath_PyStr)

lemma get_start_end_time_PyOther:
  "get_start_end_time_from_filepaths p_parse (Many (PyOther # filepaths)) filename_pattern
     = Inl (TypeError (quoted ''filepath'' @ '' must be a string.''))"
  by (simp add: get_start_end_time_from_filepaths_def get_key_from_filepaths_def
        get_key_from_filepath_PyOther)

lemma get_start_end_time_empty:
  "get_start_end_time_from_filepaths p_parse (Many []) filename_pattern
     = Inl (NameError (''name '' @ quoted ''np'' @ '' is not defined''))"
  by (simp add: get_start_end_time_from_filepaths_def get_key_from_filepaths_def
        np_array_def info_module_names_def)

lemma get_start_end_time_raises:
  "\<exists>e. get_start_end_time_from_filepaths p_parse filepaths filename_pattern = Inl e"
proof (cases filepaths)
  case (OneStr s)
  then show ?thesis by (simp add: get_start_end_time_OneStr)
next
  case (Many l)
  show ?thesis
  proof (cases l)
    case Nil
    with Many show ?thesis by (simp add: get_start_end_time_empty)
  next
    case (Cons f fs)
    with Many show ?thesis
      by (cases f) (simp_all add: get_start_end_time_PyStr get_start_end_time_PyOther)
  qed
qed

section \<open>Facts about the compaction\<close>

text \<open>With at least one file, \<open>group_files_by_time\<close> raises before it computes any
  group period.\<close>

lemma group_files_by_time_raises:
  "group_files_by_time p_parse ext (filepath # filepaths) start_time end_time
       temporal_partitioning filename_pattern
     = Inl (TypeError (quoted ''ValueError'' @ '' object is not subscriptable''))"
  by (simp add: group_files_by_time_def get_start_end_time_PyStr)


section \<open>Lemmas on the ingestion\<close>













section \<open>Results on the temporal grouping\<close>

text \<open>
  C1, the claim as stated, at the upper bound of \<open>pd.Timestamp\<close>. The claim: for every
  \<open>start_time \<le> end_time\<close> and every supported granularity the function returns
  windows that cover \<open>[start_time, end_time)\<close>. With granularity \<open>"day"\<close>, from
  2262-04-11 00:00:00.000000001 to \<open>pd.Timestamp.max\<close>, the end is not a midnight, so the
  function computes midnight of the next day, 2262-04-12, which is past
  \<open>pd.Timestamp.max\<close>: it raises \<open>OutOfBoundsDatetime\<close> and returns no window. With
  granularity \<open>"year"\<close>, from 2262-01-01 to 2262-04-01, it adds one year to the end
  and raises in the same way.
\<close>

theorem C1_out_of_bounds_counterexample:
  "supported ''day'' \<and> supported ''year''
   \<and> valid_timestamp (2262, 4, 11, 1) \<and> valid_timestamp Timestamp_max
   \<and> (2262, 4, 11, 1) \<le> Timestamp_max
   \<and> get_list_group_periods (2262, 4, 11, 1) Timestamp_max ''day''
       = Inl (OutOfBoundsDatetime ''Out of bounds nanosecond timestamp'')
   \<and> valid_timestamp (2262, 1, 1, 0) \<and> valid_timestamp (2262, 4, 1, 0)
   \<and> (2262, 1, 1, 0) \<le> ((2262, 4, 1, 0) :: timestamp)
   \<and> get_list_group_periods (2262, 1, 1, 0) (2262, 4, 1, 0) ''year''
       = Inl (OutOfBoundsDatetime ''Out of bounds nanosecond timestamp'')"
proof -
  have a: "supported ''day'' \<and> supported ''year''" by (simp add: supported_def)
  have b: "valid_timestamp (2262, 4, 11, 1) \<and> valid_timestamp Timestamp_max
           \<and> (2262, 4, 11, 1) \<le> Timestamp_max"
    by (simp add: valid_timestamp_def field_defs days_in_month_def ns_per_day_def
          in_bounds_def Timestamp_min_def Timestamp_max_def)
  have c: "get_list_group_periods (2262, 4, 11, 1) Timestamp_max ''day''
             = Inl (OutOfBoundsDatetime ''Out of bounds nanosecond timestamp'')"
    by (simp add: eval_defs)
  have d: "valid_timestamp (2262, 1, 1, 0) \<and> valid_timestamp (2262, 4, 1, 0)
           \<and> (2262, 1, 1, 0) \<le> ((2262, 4, 1, 0) :: timestamp)"
    by (simp add: valid_timestamp_def field_defs days_in_month_def ns_per_day_def
          in_bounds_def Timestamp_min_def Timestamp_max_def)
  have e: "get_list_group_periods (2262, 1, 1, 0) (2262, 4, 1, 0) ''year''
             = Inl (OutOfBoundsDatetime ''Out of bounds nanosecond timestamp'')"
    by (simp add: eval_defs)
  show ?thesis using a b c d e by blast
qed

text \<open>
  C1, amended. For valid timestamps \<open>start_time \<le> end_time\<close> with \<open>start_time\<close> in the
  year 1678 or later and \<open>end_time\<close> in the year 2260 or earlier, and each of the four
  implemented granularities, \<open>get_list_group_periods\<close> returns a list of windows that
  is ordered by time, pairwise disjoint as half-open intervals, contiguous, made of
  non-empty windows, and whose union is exactly \<open>[start_time, end_time)\<close>; when
  \<open>start_time = end_time\<close> the list is empty. The two years keep every boundary that
  the function computes within the bounds of \<open>pd.Timestamp\<close>.
\<close>

theorem C1_windows_partition:
  assumes "supported temporal_partitioning"
    and "valid_timestamp start_time" and "valid_timestamp end_time"
    and "start_time \<le> end_time"
    and "1678 \<le> year start_time" and "year end_time \<le> 2260"
  shows "\<exists>ws. get_list_group_periods start_time end_time temporal_partitioning = Inr ws
           \<and> windows_ordered ws \<and> windows_disjoint ws \<and> windows_contiguous ws
           \<and> (\<forall>w\<in>set ws. window_start w < window_end w)
           \<and> windows_cover start_time end_time ws
           \<and> (start_time = end_time \<longrightarrow> ws = [])"
proof -
  from periods_chain[OF assms] obtain ws where
    r: "get_list_group_periods start_time end_time temporal_partitioning = Inr ws"
    and c: "chain start_time end_time ws" by blast
  have "windows_contiguous ws"
    unfolding windows_contiguous_def using chain_contiguous[OF c] by blast
  moreover have "windows_cover start_time end_time ws"
    unfolding windows_cover_def window_interval_def using chain_union[OF c] by simp
  moreover have "\<forall>w\<in>set ws. window_start w < window_end w" using chain_bounds[OF c] by blast
  moreover have "start_time = end_time \<longrightarrow> ws = []" using c chain_empty by blast
  ultimately show ?thesis using r chain_ordered[OF c] chain_disjoint[OF c] by blast
qed

text \<open>The theorem at a range that crosses a year and ends inside a quarter.\<close>

theorem C1_windows_partition_witness:
  "supported ''quarter'' \<and> valid_timestamp (2020, 11, 15, 5) \<and> valid_timestamp (2021, 8, 10, 0)
   \<and> (2020, 11, 15, 5) \<le> ((2021, 8, 10, 0) :: timestamp)
   \<and> 1678 \<le> year (2020, 11, 15, 5) \<and> year (2021, 8, 10, 0) \<le> 2260
   \<and> (\<exists>ws. get_list_group_periods (2020, 11, 15, 5) (2021, 8, 10, 0) ''quarter'' = Inr ws
           \<and> windows_ordered ws \<and> windows_disjoint ws \<and> windows_contiguous ws
           \<and> (\<forall>w\<in>set ws. window_start w < window_end w)
           \<and> windows_cover (2020, 11, 15, 5) (2021, 8, 10, 0) ws
           \<and> ((2020, 11, 15, 5) = ((2021, 8, 10, 0) :: timestamp) \<longrightarrow> ws = []))"
proof -
  have h1: "supported ''quarter''" by (simp add: supported_def)
  have h2: "valid_timestamp (2020, 11, 15, 5)"
    by (simp add: valid_timestamp_def field_defs days_in_month_def ns_per_day_def
          in_bounds_def Timestamp_min_def Timestamp_max_def)
  have h3: "valid_timestamp (2021, 8, 10, 0)"
    by (simp add: valid_timestamp_def field_defs days_in_month_def ns_per_day_def
          in_bounds_def Timestamp_min_def Timestamp_max_def)
  have h4: "(2020, 11, 15, 5) \<le> ((2021, 8, 10, 0) :: timestamp)" by simp
  have h5: "1678 \<le> year (2020, 11, 15, 5)" by (simp add: year_def)
  have h6: "year (2021, 8, 10, 0) \<le> 2260" by (simp add: year_def)
  show ?thesis
    using h1 h2 h3 h4 h5 h6 C1_windows_partition[OF h1 h2 h3 h4 h5 h6] by blast
qed


text \<open>
  C9. With granularity \<open>"month"\<close>, the range from 2021-01-15 to 2021-03-10 gives
  exactly three windows. The first starts at 2021-01-15 (not at 2021-01-01), the last
  ends at 2021-03-10, and the boundaries in between are the first of February and the
  first of March.
\<close>

theorem C9_month_partial_windows:
  "get_list_group_periods (2021, 1, 15, 0) (2021, 3, 10, 0) ''month'' =
     Inr [(''2021_1'', (2021, 1, 15, 0), (2021, 2, 1, 0)),
          (''2021_2'', (2021, 2, 1, 0), (2021, 3, 1, 0)),
          (''2021_3'', (2021, 3, 1, 0), (2021, 3, 10, 0))]"
  by (simp add: eval_defs)

text \<open>
  C2. The claim: the granularity check accepts exactly \<open>"year"\<close>, \<open>"month"\<close>,
  \<open>"quarter"\<close> and \<open>"day"\<close>. The code at \<open>"day"\<close>: \<open>check_temporal_partitioning\<close>
  raises \<open>ValueError\<close>, although the grouping functions implement \<open>"day"\<close> and return
  its windows. The check accepts \<open>"season"\<close> instead, for which the grouping functions
  raise \<open>NotImplementedError\<close>.
\<close>

theorem C2_day_rejected_by_check:
  "(\<exists>msg. check_temporal_partitioning ''day'' = Inl (ValueError msg))
   \<and> get_list_group_periods (2021, 1, 15, 0) (2021, 1, 17, 0) ''day'' =
       Inr [(''2021_1_15'', (2021, 1, 15, 0), (2021, 1, 16, 0)),
            (''2021_1_16'', (2021, 1, 16, 0), (2021, 1, 17, 0))]
   \<and> check_temporal_partitioning ''season'' = Inr ''season''
   \<and> get_list_group_periods (2021, 1, 15, 0) (2021, 1, 17, 0) ''season'' =
       Inl (NotImplementedError (invalid_partitioning_msg ''season''))"
proof -
  have a: "\<exists>msg. check_temporal_partitioning ''day'' = Inl (ValueError msg)"
    by (simp add: check_temporal_partitioning_def valid_values_def)
  have b: "get_list_group_periods (2021, 1, 15, 0) (2021, 1, 17, 0) ''day'' =
       Inr [(''2021_1_15'', (2021, 1, 15, 0), (2021, 1, 16, 0)),
            (''2021_1_16'', (2021, 1, 16, 0), (2021, 1, 17, 0))]"
    by (simp add: eval_defs)
  have c: "check_temporal_partitioning ''season'' = Inr ''season''"
    by (simp add: check_temporal_partitioning_def valid_values_def)
  have d: "get_list_group_periods (2021, 1, 15, 0) (2021, 1, 17, 0) ''season'' =
       Inl (NotImplementedError (invalid_partitioning_msg ''season''))"
    by (simp add: get_list_group_periods_def get_partitioning_boundaries_def)
  show ?thesis using a b c d by blast
qed

text \<open>
  C3. The claim: the prefixes of two distinct windows of one run are never a string
  prefix of one another, so the update-mode deletion, which tests
  \<open>os.path.basename(filepath).startswith(time_prefix)\<close>, touches only the files of the
  window being rewritten. The code, called on the months January to October 2021:
  \<open>get_list_group_periods\<close> gives the prefixes \<open>"2021_1"\<close> to \<open>"2021_10"\<close>, and
  \<open>"2021_1"\<close>, the prefix of January, is a proper prefix of \<open>"2021_10"\<close>, the prefix of
  October; the test of the deletion, made for the January window, holds of the
  October file \<open>2021_10_0.parquet\<close>. The same happens between the days
  \<open>"2021_1_1"\<close> and \<open>"2021_1_10"\<close>.

  Within \<open>merge_granule_buckets\<close> the deletion is not reached at present:
  \<open>group_files_by_time\<close>, which computes the windows of a partition, reads the times
  of the files first and raises \<open>TypeError\<close> whenever the partition has a file (last
  conjunct; see C4).
\<close>

theorem C3_prefix_collision:
  "map_sum id (map fst) (get_list_group_periods (2021, 1, 1, 0) (2021, 11, 1, 0) ''month'') =
     Inr [''2021_1'', ''2021_2'', ''2021_3'', ''2021_4'', ''2021_5'', ''2021_6'', ''2021_7'',
          ''2021_8'', ''2021_9'', ''2021_10'']
   \<and> ''2021_1'' \<noteq> ''2021_10'' \<and> startswith ''2021_10'' ''2021_1''
   \<and> startswith (basename ''dst/2021_10_0.parquet'') ''2021_1''
   \<and> map_sum id (map fst) (get_list_group_periods (2021, 1, 1, 0) (2021, 1, 11, 0) ''day'') =
       Inr [''2021_1_1'', ''2021_1_2'', ''2021_1_3'', ''2021_1_4'', ''2021_1_5'', ''2021_1_6'',
            ''2021_1_7'', ''2021_1_8'', ''2021_1_9'', ''2021_1_10'']
   \<and> startswith ''2021_1_10'' ''2021_1_1''
   \<and> (\<exists>e. group_files_by_time p_parse ext (filepath # filepaths)
              (Some (2021, 1, 1, 0)) (Some (2021, 11, 1, 0)) ''month'' filename_pattern = Inl e)"
proof -
  have a: "map_sum id (map fst) (get_list_group_periods (2021, 1, 1, 0) (2021, 11, 1, 0) ''month'') =
     Inr [''2021_1'', ''2021_2'', ''2021_3'', ''2021_4'', ''2021_5'', ''2021_6'', ''2021_7'',
          ''2021_8'', ''2021_9'', ''2021_10'']"
    by (simp add: eval_defs)
  have b: "''2021_1'' \<noteq> ''2021_10'' \<and> startswith ''2021_10'' ''2021_1''"
    by (simp add: startswith_def)
  have c: "startswith (basename ''dst/2021_10_0.parquet'') ''2021_1''"
    by (simp add: startswith_def basename_def)
  have d: "map_sum id (map fst) (get_list_group_periods (2021, 1, 1, 0) (2021, 1, 11, 0) ''day'') =
       Inr [''2021_1_1'', ''2021_1_2'', ''2021_1_3'', ''2021_1_4'', ''2021_1_5'', ''2021_1_6'',
            ''2021_1_7'', ''2021_1_8'', ''2021_1_9'', ''2021_1_10'']"
    by (simp add: eval_defs)
  have e: "startswith ''2021_1_10'' ''2021_1_1''" by (simp add: startswith_def)
  have f: "\<exists>e. group_files_by_time p_parse ext (filepath # filepaths)
              (Some (2021, 1, 1, 0)) (Some (2021, 11, 1, 0)) ''month'' filename_pattern = Inl e"
    by (simp add: group_files_by_time_raises)
  show ?thesis using a b c d e f by blast
qed


section \<open>C4: the file name parser is never reached\<close>

text \<open>
  Claim C4. For every file name and every pattern list, whatever the trollsift parser
  would answer, \<open>_get_info_from_filename\<close> returns a \<open>ValueError\<close> object and never an
  information dictionary: each call \<open>parse_filename_pattern(filename, pattern=pattern)\<close>
  fails at argument binding, since \<open>pattern\<close> is not a parameter, and the exception is
  swallowed. Hence \<open>get_start_end_time_from_filepaths\<close> raises for every input:
  \<open>TypeError\<close> when the list of file paths has a first element (from the subscript on
  the \<open>ValueError\<close> object, or from the type test when the element is not a string),
  and \<open>NameError\<close> from the unbound name \<open>np\<close> when the list is empty.
\<close>

theorem C4_info_never_parsed:
  "get_info_from_filename p_parse filename filename_patterns
     = ReturnedValueError ''Invalid pattern specified.''
   \<and> get_start_end_time_from_filepaths p_parse (Many (PyStr path # filepaths)) filename_pattern
       = Inl (TypeError (quoted ''ValueError'' @ '' object is not subscriptable''))
   \<and> get_start_end_time_from_filepaths p_parse (OneStr path) filename_pattern
       = Inl (TypeError (quoted ''ValueError'' @ '' object is not subscriptable''))
   \<and> get_start_end_time_from_filepaths p_parse (Many (PyOther # filepaths)) filename_pattern
       = Inl (TypeError (quoted ''filepath'' @ '' must be a string.''))
   \<and> get_start_end_time_from_filepaths p_parse (Many []) filename_pattern
       = Inl (NameError (''name '' @ quoted ''np'' @ '' is not defined''))
   \<and> (\<exists>e. get_start_end_time_from_filepaths p_parse any_filepaths filename_pattern = Inl e)"
  by (simp add: get_info_from_filename_ValueError get_start_end_time_PyStr
        get_start_end_time_OneStr get_start_end_time_PyOther get_start_end_time_empty
        get_start_end_time_raises)

text \<open>
  The same at a parser that answers every file name with a dictionary holding both
  times, one pattern and one file path: called by position \<open>parse_filename_pattern\<close>
  returns that dictionary, yet \<open>_get_info_from_filename\<close> returns the \<open>ValueError\<close>
  object and \<open>get_start_end_time_from_filepaths\<close> raises \<open>TypeError\<close>.
\<close>

theorem C4_info_never_parsed_witness:
  "call_parse_filename_pattern
       (\<lambda>pattern filename. Inr [''start_time'' \<mapsto> Datetime (2021, 1, 1, 0),
                                 ''end_time'' \<mapsto> Datetime (2021, 1, 1, 5)])
       [''a.parquet'', ''{start_time}_{end_time}''] []
     = Inr [''start_time'' \<mapsto> Datetime (2021, 1, 1, 0),
            ''end_time'' \<mapsto> Datetime (2021, 1, 1, 5)]
   \<and> get_info_from_filename
       (\<lambda>pattern filename. Inr [''start_time'' \<mapsto> Datetime (2021, 1, 1, 0),
                                 ''end_time'' \<mapsto> Datetime (2021, 1, 1, 5)])
       ''a.parquet'' (Many [''{start_time}_{end_time}''])
     = ReturnedValueError ''Invalid pattern specified.''
   \<and> get_start_end_time_from_filepaths
       (\<lambda>pattern filename. Inr [''start_time'' \<mapsto> Datetime (2021, 1, 1, 0),
                                 ''end_time'' \<mapsto> Datetime (2021, 1, 1, 5)])
       (Many [PyStr ''/bucket/a.parquet'']) (Many [''{start_time}_{end_time}''])
     = Inl (TypeError (quoted ''ValueError'' @ '' object is not subscriptable''))"
  using C4_info_never_parsed
          [of "\<lambda>pattern filename. Inr [''start_time'' \<mapsto> Datetime (2021, 1, 1, 0),
                                        ''end_time'' \<mapsto> Datetime (2021, 1, 1, 5)]"
              "''a.parquet''" "Many [''{start_time}_{end_time}'']"
              "''/bucket/a.parquet''" "[]" "Many [''{start_time}_{end_time}'']"]
  by (simp add: call_parse_filename_pattern_def bind_args_def parse_filename_pattern_def
        fun_upd_twist)

section \<open>Results on the ingestion\<close>

text \<open>
  C8. When the extraction function returns \<open>None\<close> for a source file,
  \<open>write_granule_bucket\<close> returns without raising and leaves the file system as the
  extraction function left it: it neither labels nor writes, whatever the labelling
  and the writer would do. Its wrapper \<open>_try_write_granule_bucket\<close> returns \<open>None\<close>,
  so the call is not reported as a failure.
\<close>

theorem C8_no_data_writes_nothing:
  assumes "granule_to_df_func src_filepath fs = (Inr None, fs')"
  shows "write_granule_bucket ext src_filepath bucket_dir spatial_partitioning
           granule_to_df_func x y writer_kwargs fs = (Inr (), fs')
         \<and> try_write_granule_bucket ext src_filepath bucket_dir spatial_partitioning
             granule_to_df_func x y writer_kwargs fs = (None, fs')"
  using assms by (simp add: write_granule_bucket_def try_write_granule_bucket_def)

text \<open>
  The theorem at an extraction function that does not touch the file system, on a
  bucket that holds one file: the bucket holds the same file after the call.
\<close>

theorem C8_no_data_writes_nothing_witness:
  "example_extractor ''/granules/none.nc'' [''/bucket/a_0.parquet'']
     = (Inr None, [''/bucket/a_0.parquet''])
   \<and> write_granule_bucket example_externals ''/granules/none.nc'' ''/bucket''
       example_partitioning example_extractor ''lon'' ''lat'' Map.empty [''/bucket/a_0.parquet'']
       = (Inr (), [''/bucket/a_0.parquet''])
   \<and> try_write_granule_bucket example_externals ''/granules/none.nc'' ''/bucket''
       example_partitioning example_extractor ''lon'' ''lat'' Map.empty [''/bucket/a_0.parquet'']
       = (None, [''/bucket/a_0.parquet''])"
proof -
  have h: "example_extractor ''/granules/none.nc'' [''/bucket/a_0.parquet'']
             = (Inr None, [''/bucket/a_0.parquet''])"
    by (simp add: example_extractor_def basename_def)
  show ?thesis
    using h C8_no_data_writes_nothing[of example_extractor "''/granules/none.nc''"
              "[''/bucket/a_0.parquet'']" "[''/bucket/a_0.parquet'']" example_externals
              "''/bucket''" example_partitioning "''lon''" "''lat''" Map.empty]
    by simp
qed





end
